theory Spec2Isabelle
  imports Main "HOL-Library.Word"
begin

unbundle bit_operations_syntax

text \<open>
  A shallow embedding of \<^verbatim>\<open>src/HttpAuth.ts\<close> (with the one function of
  \<^verbatim>\<open>src/random.ts\<close> it calls) and of the JavaScript built-ins the code relies on.

  Conventions of the embedding:
  \<^item> A JavaScript string is a \<open>string\<close>, read as the bytes of its UTF-8 encoding; this is
    what \<^verbatim>\<open>md5\<close> hashes and what \<^verbatim>\<open>Buffer.from\<close> encodes. Case folding and
    whitespace are the ASCII ones, so the embedding is exact on ASCII header values.
  \<^item> A value that may be \<^verbatim>\<open>undefined\<close> (an absent property, an unset field, an omitted
    argument) is an \<open>option\<close>; \<open>str\<close> is its rendering in a template literal.
  \<^item> A plain object used as a dictionary is a map (\<open>authInfo\<close>) or, where the enumeration
    order of its keys is observable (\<open>authInfos\<close>), an association list in insertion order
    together with the object's prototype. Where a property name can collide with a member
    of \<^verbatim>\<open>Object.prototype\<close> that the code relies on (\<^verbatim>\<open>__proto__\<close> on assignment,
    \<^verbatim>\<open>hasOwnProperty\<close> on the call), the embedding does what the object does.
  \<^item> A thrown exception is the \<open>Inl\<close> of a sum; a method of the session returns its
    result together with the session it leaves behind, also when it throws.
  \<^item> Numbers that count (\<open>nonceCount\<close>) are \<open>nat\<close>: JavaScript numbers are exact on
    integers below \<open>2^53\<close>.
  \<^item> The random bytes \<^verbatim>\<open>crypto.randomBytes\<close> returns are an argument of the operation
    that draws them. Logging is left out.
\<close>

section \<open>JavaScript built-ins\<close>

datatype error =
    Error string   \<comment> \<open>\<^verbatim>\<open>new Error(message)\<close>, thrown by the code itself\<close>
  | TypeError      \<comment> \<open>thrown by the engine: a property read on \<^verbatim>\<open>null\<close>\<close>
  | SyntaxError    \<comment> \<open>thrown by \<^verbatim>\<open>JSON.parse\<close>\<close>

definition str :: "string option \<Rightarrow> string" where
  "str v = (case v of None \<Rightarrow> ''undefined'' | Some s \<Rightarrow> s)"

subsection \<open>Strings\<close>

definition indexOf :: "string \<Rightarrow> char \<Rightarrow> int" where
  "indexOf s c = (if c \<in> set s then int (length (takeWhile (\<lambda>x. x \<noteq> c) s)) else - 1)"

definition lastIndexOf :: "string \<Rightarrow> char \<Rightarrow> int" where
  "lastIndexOf s c =
     (if c \<in> set s then int (length s) - 1 - int (length (takeWhile (\<lambda>x. x \<noteq> c) (rev s)))
      else - 1)"

text \<open>
  \<^verbatim>\<open>s.substring(a, b)\<close> clamps both indices to \<open>[0, length]\<close> and swaps them when
  \<open>a > b\<close>; \<^verbatim>\<open>s.substring(a)\<close> runs to the end.
\<close>

definition substring :: "string \<Rightarrow> int \<Rightarrow> int \<Rightarrow> string" where
  "substring s a b =
     (let n = int (length s);
          a' = min (max a 0) n;
          b' = min (max b 0) n;
          lo = min a' b';
          hi = max a' b'
      in take (nat (hi - lo)) (drop (nat lo) s))"

definition substringFrom :: "string \<Rightarrow> int \<Rightarrow> string" where
  "substringFrom s a = substring s a (int (length s))"

definition startsWith :: "string \<Rightarrow> string \<Rightarrow> bool" where
  "startsWith s p = (take (length p) s = p)"

definition toLowerCaseChar :: "char \<Rightarrow> char" where
  "toLowerCaseChar c =
     (let k = of_char c :: nat in if 65 \<le> k \<and> k \<le> 90 then char_of (k + 32) else c)"

definition toLowerCase :: "string \<Rightarrow> string" where
  "toLowerCase s = map toLowerCaseChar s"

definition isWhiteSpace :: "char \<Rightarrow> bool" where
  "isWhiteSpace c = (let k = of_char c :: nat in (9 \<le> k \<and> k \<le> 13) \<or> k = 32)"

definition trimLeft :: "string \<Rightarrow> string" where
  "trimLeft s = dropWhile isWhiteSpace s"

text \<open>\<^verbatim>\<open>s.split(sep)\<close> for a one-character separator: the empty string gives \<open>[""]\<close>.\<close>

fun split :: "string \<Rightarrow> char \<Rightarrow> string list" where
  "split [] sep = [[]]"
| "split (c # cs) sep =
     (if c = sep then [] # split cs sep
      else (case split cs sep of [] \<Rightarrow> [[c]] | w # ws \<Rightarrow> (c # w) # ws))"

subsection \<open>Numbers as hexadecimal text\<close>

text \<open>
  \<^verbatim>\<open>n.toString(16)\<close> on a non-negative integer: the lowercase hexadecimal digits, most
  significant first, without leading zeros (\<open>0\<close> gives "0").
\<close>

definition hexDigitLower :: "nat \<Rightarrow> char" where
  "hexDigitLower d = ''0123456789abcdef'' ! d"

function toString16 :: "nat \<Rightarrow> string" where
  "toString16 n = (if n < 16 then [hexDigitLower n]
                   else toString16 (n div 16) @ [hexDigitLower (n mod 16)])"
  by pat_completeness auto
termination
  by (relation "measure id") auto

declare toString16.simps [simp del]

text \<open>
  Reading a string back as hexadecimal (what \<^verbatim>\<open>parseInt(s, 16)\<close> does on a string made
  of hexadecimal digits only); \<open>None\<close> stands for a string that is empty or holds another
  character.
\<close>

definition hexValue :: "char \<Rightarrow> nat option" where
  "hexValue c =
     (let k = of_char c :: nat
      in if 48 \<le> k \<and> k \<le> 57 then Some (k - 48)
         else if 97 \<le> k \<and> k \<le> 102 then Some (k - 87)
         else if 65 \<le> k \<and> k \<le> 70 then Some (k - 55)
         else None)"

fun parseHexFrom :: "nat \<Rightarrow> string \<Rightarrow> nat option" where
  "parseHexFrom acc [] = Some acc"
| "parseHexFrom acc (c # cs) =
     (case hexValue c of None \<Rightarrow> None | Some d \<Rightarrow> parseHexFrom (16 * acc + d) cs)"

definition parseHex :: "string \<Rightarrow> nat option" where
  "parseHex s = (if s = [] then None else parseHexFrom 0 s)"

subsection \<open>JSON\<close>

text \<open>
  \<^verbatim>\<open>JSON.parse\<close> on a text that is one string literal. The characters between the
  quotes are decoded: a raw quote or a control character is a syntax error, a backslash
  starts one of the escapes of JSON. A \<^verbatim>\<open>\uXXXX\<close> escape yields the UTF-8 bytes of that
  code unit; a high surrogate followed at once by the escape of a low surrogate makes one
  code point of four bytes; a surrogate on its own stays a lone code unit of the string,
  which the UTF-8 encoder turns into the bytes of U+FFFD.
\<close>

definition utf8 :: "nat \<Rightarrow> string" where
  "utf8 v =
     (if v < 0x80 then [char_of v]
      else if v < 0x800 then [char_of (0xC0 + v div 64), char_of (0x80 + v mod 64)]
      else if v < 0x10000 then
        [char_of (0xE0 + v div 4096), char_of (0x80 + (v div 64) mod 64),
         char_of (0x80 + v mod 64)]
      else
        [char_of (0xF0 + v div 262144), char_of (0x80 + (v div 4096) mod 64),
         char_of (0x80 + (v div 64) mod 64), char_of (0x80 + v mod 64)])"

definition isHighSurrogate :: "nat \<Rightarrow> bool" where
  "isHighSurrogate v = (0xD800 \<le> v \<and> v < 0xDC00)"

definition isLowSurrogate :: "nat \<Rightarrow> bool" where
  "isLowSurrogate v = (0xDC00 \<le> v \<and> v < 0xE000)"

definition lowSurrogateEscape :: "string \<Rightarrow> nat option" where
  "lowSurrogateEscape s =
     (if 6 \<le> length s \<and> take 2 s = [CHR 0x5C, CHR ''u''] then
        (case parseHex (take 4 (drop 2 s)) of
           None \<Rightarrow> None
         | Some w \<Rightarrow> if isLowSurrogate w then Some w else None)
      else None)"

definition jsonEscape :: "char \<Rightarrow> char option" where
  "jsonEscape e =
     (if e = CHR 0x22 \<or> e = CHR 0x5C \<or> e = CHR ''/'' then Some e
      else if e = CHR ''b'' then Some (CHR 0x08)
      else if e = CHR ''f'' then Some (CHR 0x0C)
      else if e = CHR ''n'' then Some (CHR 0x0A)
      else if e = CHR ''r'' then Some (CHR 0x0D)
      else if e = CHR ''t'' then Some (CHR 0x09)
      else None)"

fun jsonUnescape :: "string \<Rightarrow> string option" where
  "jsonUnescape [] = Some []"
| "jsonUnescape (c # cs) =
     (if c = CHR 0x22 \<or> (of_char c :: nat) < 0x20 then None
      else if c = CHR 0x5C then
        (case cs of
           [] \<Rightarrow> None
         | e # r \<Rightarrow>
             if e = CHR ''u'' then
               (if length r < 4 then None
                else (case parseHex (take 4 r) of
                        None \<Rightarrow> None
                      | Some v \<Rightarrow>
                          if isHighSurrogate v then
                            (case lowSurrogateEscape (drop 4 r) of
                               Some w \<Rightarrow>
                                 map_option
                                   (\<lambda>t. utf8 (0x10000 + (v - 0xD800) * 0x400 + (w - 0xDC00)) @ t)
                                   (jsonUnescape (drop 10 r))
                             | None \<Rightarrow>
                                 map_option (\<lambda>t. utf8 0xFFFD @ t) (jsonUnescape (drop 4 r)))
                          else if isLowSurrogate v then
                            map_option (\<lambda>t. utf8 0xFFFD @ t) (jsonUnescape (drop 4 r))
                          else map_option (\<lambda>t. utf8 v @ t) (jsonUnescape (drop 4 r))))
             else (case jsonEscape e of
                     None \<Rightarrow> None
                   | Some x \<Rightarrow> map_option (\<lambda>t. x # t) (jsonUnescape r)))
      else map_option (\<lambda>t. c # t) (jsonUnescape cs))"

definition JSON_parse :: "string \<Rightarrow> error + string" where
  "JSON_parse txt =
     (if 2 \<le> length txt \<and> hd txt = CHR 0x22 \<and> last txt = CHR 0x22 then
        (case jsonUnescape (butlast (tl txt)) of
           None \<Rightarrow> Inl SyntaxError
         | Some v \<Rightarrow> Inr v)
      else Inl SyntaxError)"

text \<open>\<^verbatim>\<open>JSON.stringify\<close> on an array of strings.\<close>

definition jsonQuoteChar :: "char \<Rightarrow> string" where
  "jsonQuoteChar c =
     (if c = CHR 0x22 then [CHR 0x5C, CHR 0x22]
      else if c = CHR 0x5C then [CHR 0x5C, CHR 0x5C]
      else if c = CHR 0x08 then [CHR 0x5C, CHR ''b'']
      else if c = CHR 0x0C then [CHR 0x5C, CHR ''f'']
      else if c = CHR 0x0A then [CHR 0x5C, CHR ''n'']
      else if c = CHR 0x0D then [CHR 0x5C, CHR ''r'']
      else if c = CHR 0x09 then [CHR 0x5C, CHR ''t'']
      else if (of_char c :: nat) < 0x20 then
        [CHR 0x5C, CHR ''u'', CHR ''0'', CHR ''0'',
         hexDigitLower (of_char c div 16), hexDigitLower (of_char c mod 16)]
      else [c])"

definition jsonQuote :: "string \<Rightarrow> string" where
  "jsonQuote s = [CHR 0x22] @ concat (map jsonQuoteChar s) @ [CHR 0x22]"

fun joinComma :: "string list \<Rightarrow> string" where
  "joinComma [] = []"
| "joinComma [x] = x"
| "joinComma (x # y # ys) = x @ '','' @ joinComma (y # ys)"

definition JSON_stringify :: "string list \<Rightarrow> string" where
  "JSON_stringify xs = ''['' @ joinComma (map jsonQuote xs) @ '']''"

subsection \<open>Own keys of an object, in \<^verbatim>\<open>for ... in\<close> order\<close>

text \<open>
  The keys that are array indices (canonical decimal numerals below \<open>2^32 - 1\<close>) come
  first, in ascending numeric order; the other keys follow in insertion order.
  Assigning to an existing key keeps its place (\<open>setKey\<close>).
\<close>

definition isDigit :: "char \<Rightarrow> bool" where
  "isDigit c = (let k = of_char c :: nat in 48 \<le> k \<and> k \<le> 57)"

definition decimalValue :: "string \<Rightarrow> nat" where
  "decimalValue s = foldl (\<lambda>acc c. 10 * acc + (of_char c - 48)) 0 s"

definition isArrayIndex :: "string \<Rightarrow> bool" where
  "isArrayIndex k =
     (k \<noteq> [] \<and> list_all isDigit k \<and> (k = ''0'' \<or> hd k \<noteq> CHR ''0'')
      \<and> decimalValue k < 4294967295)"

definition ownKeys :: "(string \<times> 'a) list \<Rightarrow> string list" where
  "ownKeys obj =
     (let ks = map fst obj
      in sort_key decimalValue (filter isArrayIndex ks) @ filter (\<lambda>k. \<not> isArrayIndex k) ks)"

fun setKey :: "(string \<times> 'a) list \<Rightarrow> string \<Rightarrow> 'a \<Rightarrow> (string \<times> 'a) list" where
  "setKey [] k v = [(k, v)]"
| "setKey ((k', v') # kvs) k v =
     (if k' = k then (k, v) # kvs else (k', v') # setKey kvs k v)"

subsection \<open>The regular expression of the parser\<close>

text \<open>
  \<^verbatim>\<open>s.match(/"([^"]|\\")*",? */)\<close>: the text of the leftmost match, \<open>None\<close> for
  \<^verbatim>\<open>null\<close>. A match starts at a quote. The first alternative of the group matches every
  character but a quote, a backslash too, and the group is followed by a quote: so the
  greedy star stops at the next quote and the match closes there; the second alternative
  never contributes. After the closing quote come an optional comma and any number of
  spaces. If no quote follows the first quote, no position matches.
\<close>

definition matchQuoted :: "string \<Rightarrow> string option" where
  "matchQuoted s =
     (case dropWhile (\<lambda>x. x \<noteq> CHR 0x22) s of
        [] \<Rightarrow> None
      | q # rest \<Rightarrow>
          if CHR 0x22 \<in> set rest then
            (let body = takeWhile (\<lambda>x. x \<noteq> CHR 0x22) rest;
                 after = drop (length body + 1) rest;
                 comma = (if startsWith after '','' then '','' else []);
                 spaces = takeWhile (\<lambda>x. x = CHR '' '') (drop (length comma) after)
             in Some ([q] @ body @ [CHR 0x22] @ comma @ spaces))
          else None)"

subsection \<open>MD5 and base64\<close>

text \<open>
  The function \<^verbatim>\<open>md5\<close> of the source (lines 162-164) is
  \<^verbatim>\<open>crypto.createHash('md5').update(m).digest('hex')\<close>: the MD5 message digest of
  RFC 1321 on the bytes of \<open>m\<close>, as 32 lowercase hexadecimal digits. The message is
  padded with the byte \<open>0x80\<close>, zeros up to 56 modulo 64 bytes and its length in bits as
  8 little-endian bytes; each block of 16 little-endian words is mixed into the four
  words of state in 64 steps.
\<close>

definition md5_K :: "32 word list" where
  "md5_K =
     [0xd76aa478, 0xe8c7b756, 0x242070db, 0xc1bdceee,
      0xf57c0faf, 0x4787c62a, 0xa8304613, 0xfd469501,
      0x698098d8, 0x8b44f7af, 0xffff5bb1, 0x895cd7be,
      0x6b901122, 0xfd987193, 0xa679438e, 0x49b40821,
      0xf61e2562, 0xc040b340, 0x265e5a51, 0xe9b6c7aa,
      0xd62f105d, 0x02441453, 0xd8a1e681, 0xe7d3fbc8,
      0x21e1cde6, 0xc33707d6, 0xf4d50d87, 0x455a14ed,
      0xa9e3e905, 0xfcefa3f8, 0x676f02d9, 0x8d2a4c8a,
      0xfffa3942, 0x8771f681, 0x6d9d6122, 0xfde5380c,
      0xa4beea44, 0x4bdecfa9, 0xf6bb4b60, 0xbebfbc70,
      0x289b7ec6, 0xeaa127fa, 0xd4ef3085, 0x04881d05,
      0xd9d4d039, 0xe6db99e5, 0x1fa27cf8, 0xc4ac5665,
      0xf4292244, 0x432aff97, 0xab9423a7, 0xfc93a039,
      0x655b59c3, 0x8f0ccc92, 0xffeff47d, 0x85845dd1,
      0x6fa87e4f, 0xfe2ce6e0, 0xa3014314, 0x4e0811a1,
      0xf7537e82, 0xbd3af235, 0x2ad7d2bb, 0xeb86d391]"

definition md5_S :: "nat list" where
  "md5_S =
     [7, 12, 17, 22, 7, 12, 17, 22, 7, 12, 17, 22, 7, 12, 17, 22,
      5, 9, 14, 20, 5, 9, 14, 20, 5, 9, 14, 20, 5, 9, 14, 20,
      4, 11, 16, 23, 4, 11, 16, 23, 4, 11, 16, 23, 4, 11, 16, 23,
      6, 10, 15, 21, 6, 10, 15, 21, 6, 10, 15, 21, 6, 10, 15, 21]"

definition leBytes64 :: "64 word \<Rightarrow> 8 word list" where
  "leBytes64 w = map (\<lambda>i. ucast (drop_bit (8 * i) w)) [0..<8]"

definition leBytes32 :: "32 word \<Rightarrow> 8 word list" where
  "leBytes32 w = map (\<lambda>i. ucast (drop_bit (8 * i) w)) [0..<4]"

definition md5_pad :: "string \<Rightarrow> 8 word list" where
  "md5_pad m =
     (let n = length m
      in map of_char m @ [0x80] @ replicate ((119 - n mod 64) mod 64) 0
           @ leBytes64 (8 * of_nat n))"

fun md5_words :: "8 word list \<Rightarrow> 32 word list" where
  "md5_words (b0 # b1 # b2 # b3 # bs) =
     (ucast b0 OR push_bit 8 (ucast b1) OR push_bit 16 (ucast b2) OR push_bit 24 (ucast b3))
       # md5_words bs"
| "md5_words _ = []"

type_synonym md5_state = "32 word \<times> 32 word \<times> 32 word \<times> 32 word"

definition md5_step :: "32 word list \<Rightarrow> md5_state \<Rightarrow> nat \<Rightarrow> md5_state" where
  "md5_step M st i =
     (case st of (a, b, c, d) \<Rightarrow>
        let f = (if i < 16 then (b AND c) OR (NOT b AND d)
                 else if i < 32 then (d AND b) OR (NOT d AND c)
                 else if i < 48 then b XOR c XOR d
                 else c XOR (b OR NOT d));
            g = (if i < 16 then i
                 else if i < 32 then (5 * i + 1) mod 16
                 else if i < 48 then (3 * i + 5) mod 16
                 else (7 * i) mod 16);
            x = f + a + md5_K ! i + M ! g
        in (d, b + word_rotl (md5_S ! i) x, b, c))"

definition md5_block :: "md5_state \<Rightarrow> 32 word list \<Rightarrow> md5_state" where
  "md5_block st M =
     (case st of (a0, b0, c0, d0) \<Rightarrow>
        case foldl (md5_step M) st [0..<64] of (a, b, c, d) \<Rightarrow>
          (a0 + a, b0 + b, c0 + c, d0 + d))"

fun blocks16 :: "nat \<Rightarrow> 32 word list \<Rightarrow> 32 word list list" where
  "blocks16 0 ws = []"
| "blocks16 (Suc k) ws = take 16 ws # blocks16 k (drop 16 ws)"

definition hexByte :: "8 word \<Rightarrow> string" where
  "hexByte b = [hexDigitLower (unat (drop_bit 4 b)), hexDigitLower (unat (b AND 15))]"

definition md5 :: "string \<Rightarrow> string" where
  "md5 m =
     (let ws = md5_words (md5_pad m);
          st = foldl md5_block (0x67452301, 0xefcdab89, 0x98badcfe, 0x10325476)
                 (blocks16 (length ws div 16) ws)
      in case st of (a, b, c, d) \<Rightarrow>
           concat (map hexByte (concat (map leBytes32 [a, b, c, d]))))"

text \<open>
  \<^verbatim>\<open>Buffer.from(s).toString('base64')\<close>: the base64 encoding of RFC 4648 with padding,
  three bytes to four characters.
\<close>

definition base64Char :: "nat \<Rightarrow> char" where
  "base64Char i =
     ''ABCDEFGHIJKLMNOPQRSTUVWXYZabcdefghijklmnopqrstuvwxyz0123456789+/'' ! i"

fun base64Bytes :: "nat list \<Rightarrow> string" where
  "base64Bytes [] = []"
| "base64Bytes [a] =
     [base64Char (a div 4), base64Char ((a mod 4) * 16), CHR ''='', CHR ''='']"
| "base64Bytes [a, b] =
     [base64Char (a div 4), base64Char ((a mod 4) * 16 + b div 16),
      base64Char ((b mod 16) * 4), CHR ''='']"
| "base64Bytes (a # b # c # bs) =
     [base64Char (a div 4), base64Char ((a mod 4) * 16 + b div 16),
      base64Char ((b mod 16) * 4 + c div 64), base64Char (c mod 64)] @ base64Bytes bs"

definition base64 :: "string \<Rightarrow> string" where
  "base64 s = base64Bytes (map of_char s)"

section \<open>random.ts\<close>

text \<open>
  \<^verbatim>\<open>createRandHexStringSync(hexDigits)\<close> (random.ts, lines 108-129) draws \<open>bufLen + odd\<close> random bytes and renders
  two uppercase hexadecimal digits for each of the first \<open>bufLen\<close> bytes, and one more
  digit from the extra byte when \<open>hexDigits\<close> is odd. The argument \<open>buf\<close> is the buffer
  \<^verbatim>\<open>crypto.randomBytes(bufLen + odd)\<close> returned, of that many bytes.
\<close>

definition hexChars :: string where
  "hexChars = ''0123456789ABCDEF''"

definition createRandHexStringSync :: "nat \<Rightarrow> 8 word list \<Rightarrow> string" where
  "createRandHexStringSync hexDigits buf =
     (let odd = hexDigits mod 2;
          bufLen = hexDigits div 2
      in concat (map (\<lambda>rnum. [hexChars ! unat (drop_bit 4 rnum), hexChars ! unat (rnum AND 0xF)])
                   (take bufLen buf))
         @ (if odd \<noteq> 0 then [hexChars ! unat ((buf ! bufLen) AND 0xF)] else []))"

section \<open>HttpAuth.ts\<close>

text \<open>
  The object a \<^verbatim>\<open>WWW-Authenticate\<close> value parses to: its attributes by name, with the
  scheme under \<^verbatim>\<open>authType\<close>; and the object that collects one of them per scheme.
\<close>

type_synonym authInfo = "string \<rightharpoonup> string"

text \<open>
  \<^verbatim>\<open>authInfo[key] = value\<close> with a string value: the name \<^verbatim>\<open>__proto__\<close> is the
  accessor of \<^verbatim>\<open>Object.prototype\<close>, which ignores a value that is not an object; every
  other name becomes a property of the object. The names the code reads from such an
  object (\<^verbatim>\<open>authType\<close>, \<^verbatim>\<open>realm\<close>, \<^verbatim>\<open>nonce\<close>, \<^verbatim>\<open>opaque\<close>, \<^verbatim>\<open>qop\<close>,
  \<^verbatim>\<open>algorithm\<close>, \<^verbatim>\<open>stale\<close>) are not members of \<^verbatim>\<open>Object.prototype\<close>, so
  reading them is looking them up in the map.
\<close>

definition setProp :: "authInfo \<Rightarrow> string \<Rightarrow> string \<Rightarrow> authInfo" where
  "setProp obj key v = (if key = ''__proto__'' then obj else obj(key \<mapsto> v))"

subsection \<open>\<^verbatim>\<open>toPaddedHexString\<close> and \<^verbatim>\<open>createBasicAuthenticationString\<close>\<close>

text \<open>Lines 261-264 and 322-324 of the source.\<close>

definition toPaddedHexString :: "nat \<Rightarrow> int \<Rightarrow> string" where
  "toPaddedHexString n padTo =
     (let hexStr = toString16 n
      in replicate (nat (max 0 (padTo - int (length hexStr)))) CHR ''0'' @ hexStr)"

definition createBasicAuthenticationString :: "string option \<Rightarrow> string option \<Rightarrow> string" where
  "createBasicAuthenticationString username password =
     ''Basic '' @ base64 (str username @ '':'' @ str password)"

subsection \<open>\<^verbatim>\<open>createDigestResponse\<close>\<close>

text \<open>
  Lines 211-259. The two intermediate values of the function, \<^verbatim>\<open>ha1\<close> (lines 228-235)
  and \<^verbatim>\<open>ha2\<close> (lines 237-243), come first; each stays \<^verbatim>\<open>undefined\<close> when no
  branch of its \<^verbatim>\<open>if\<close> applies. An unset \<^verbatim>\<open>body\<close> is the empty buffer.
\<close>

definition digestHA1 ::
  "authInfo \<Rightarrow> string option \<Rightarrow> string option \<Rightarrow> string option \<Rightarrow> string option" where
  "digestHA1 authInfo username password clientNonce =
     (if authInfo ''algorithm'' = None \<or> authInfo ''algorithm'' = Some ''MD5'' then
        (let a1 = str username @ '':'' @ str (authInfo ''realm'') @ '':'' @ str password
         in Some (md5 a1))
      else if authInfo ''algorithm'' = Some ''MD5-sess'' then
        (let a1 = str username @ '':'' @ str (authInfo ''realm'') @ '':'' @ str password;
             ha1Md5 = md5 a1
         in Some (ha1Md5 @ '':'' @ str (authInfo ''nonce'') @ '':'' @ str clientNonce))
      else None)"

definition digestHA2 :: "string \<Rightarrow> string \<Rightarrow> string option \<Rightarrow> string \<Rightarrow> string option" where
  "digestHA2 method uri qopType body =
     (if qopType = None \<or> qopType = Some ''auth'' then
        (let a2 = method @ '':'' @ uri in Some (md5 a2))
      else if qopType = Some ''auth-int'' then
        (let a2 = method @ '':'' @ uri @ '':'' @ md5 body in Some (md5 a2))
      else None)"

definition createDigestResponse ::
  "authInfo \<Rightarrow> string option \<Rightarrow> string option \<Rightarrow> string \<Rightarrow> string \<Rightarrow> string option \<Rightarrow> nat
     \<Rightarrow> string option \<Rightarrow> string option \<Rightarrow> error + string" where
  "createDigestResponse authInfo username password method uri clientNonce nonceCount qopType body =
     (let body' = (case body of None \<Rightarrow> [] | Some b \<Rightarrow> b);
          ha1 = digestHA1 authInfo username password clientNonce;
          ha2 = digestHA2 method uri qopType body'
      in if qopType = Some ''auth'' \<or> qopType = Some ''auth-int'' then
           (if authInfo ''nonce'' = None then Inl (Error ''nonce must be set'')
            else if clientNonce = None then Inl (Error ''cnonce must be set'')
            else
              (let responseString =
                     str ha1 @ '':'' @ str (authInfo ''nonce'') @ '':''
                       @ toPaddedHexString nonceCount 8 @ '':'' @ str clientNonce @ '':''
                       @ str qopType @ '':'' @ str ha2
               in Inr (md5 responseString)))
         else
           (let responseString = str ha1 @ '':'' @ str (authInfo ''nonce'') @ '':'' @ str ha2
            in Inr (md5 responseString)))"

subsection \<open>\<^verbatim>\<open>createDigestAuthenticationString\<close>\<close>

text \<open>
  Lines 166-209. The choice of \<^verbatim>\<open>qopType\<close> at the head of the function (lines
  176-186) comes first: the tokens are the pieces of \<^verbatim>\<open>authInfo.qop.split(',')\<close>, and
  \<^verbatim>\<open>qops.indexOf(t) >= 0\<close> is membership.
\<close>

definition resolveQop :: "authInfo \<Rightarrow> error + string option" where
  "resolveQop authInfo =
     (let qops = (case authInfo ''qop'' of None \<Rightarrow> [] | Some q \<Rightarrow> split q CHR '','')
      in if ''auth-int'' \<in> set qops then Inr (Some ''auth-int'')
         else if ''auth'' \<in> set qops then Inr (Some ''auth'')
         else if length qops = 0 then Inr None
         else Inl (Error (''No supported QOP type in '' @ JSON_stringify qops)))"

text \<open>
  For comparison with \<open>resolveQop\<close>, and not taken from the source: the qop values a
  \<^verbatim>\<open>qop\<close> attribute offers as RFC 2617 reads it, a comma-separated list whose elements
  may have white space around them.
\<close>

definition trim :: "string \<Rightarrow> string" where
  "trim s = rev (dropWhile isWhiteSpace (rev (dropWhile isWhiteSpace s)))"

definition offeredQops :: "string \<Rightarrow> string list" where
  "offeredQops qop = map trim (split qop CHR '','')"

definition createDigestAuthenticationString ::
  "authInfo \<Rightarrow> string option \<Rightarrow> string option \<Rightarrow> string \<Rightarrow> string \<Rightarrow> string option \<Rightarrow> nat
     \<Rightarrow> string option \<Rightarrow> error + string" where
  \<open>createDigestAuthenticationString authInfo username password method uri clientNonce nonceCount body =
     (case resolveQop authInfo of
        Inl e \<Rightarrow> Inl e
      | Inr qopType \<Rightarrow>
          (case createDigestResponse authInfo username password method uri clientNonce
                  nonceCount qopType body of
             Inl e \<Rightarrow> Inl e
           | Inr response \<Rightarrow>
               Inr (''Digest username="'' @ str username
                    @ ''", realm="'' @ str (authInfo ''realm'')
                    @ ''", nonce="'' @ str (authInfo ''nonce'')
                    @ ''", uri="'' @ uri
                    @ ''", response="'' @ response @ ''"''
                    @ (case authInfo ''opaque'' of
                         None \<Rightarrow> []
                       | Some opaque \<Rightarrow> '', opaque="'' @ opaque @ ''"'')
                    @ (case qopType of
                         None \<Rightarrow> []
                       | Some q \<Rightarrow>
                           '', qop='' @ q @ '', nc='' @ toPaddedHexString nonceCount 8
                             @ '', cnonce="'' @ str clientNonce @ ''"''))))\<close>

subsection \<open>\<^verbatim>\<open>parseWwwAuthenticateHeader\<close>\<close>

text \<open>
  Lines 266-320. One turn of the \<^verbatim>\<open>while\<close> loop (lines 276-316): from the rest of the header value and the object
  built so far to the new rest and object, or the exception thrown. The test
  \<^verbatim>\<open>matches.length === 0\<close> is never true of a match (a match has the matched text and one
  group) and reading \<^verbatim>\<open>length\<close> of \<^verbatim>\<open>null\<close> throws.
\<close>

definition parseStep :: "string \<Rightarrow> string \<Rightarrow> authInfo \<Rightarrow> error + string \<times> authInfo" where
  \<open>parseStep originalHeaderValue headerValue authInfo =
     (let equalsIndex = indexOf headerValue CHR ''='';
          spaceIndex = indexOf headerValue CHR '' ''
      in if spaceIndex \<ge> 0 \<and> equalsIndex \<ge> 0 \<and> spaceIndex < equalsIndex then
           (let newAuthType = toLowerCase (substring headerValue 0 spaceIndex)
            in Inr (substringFrom headerValue (spaceIndex + 1),
                    authInfo(''authType'' \<mapsto> newAuthType)))
         else if equalsIndex < 0 then
           Inl (Error (''Could not parse WWW-Authenticate header "'' @ originalHeaderValue @ ''"''))
         else
           (let key = substring headerValue 0 equalsIndex;
                headerValue1 = substringFrom headerValue (equalsIndex + 1)
            in if startsWith headerValue1 ''"'' then
                 (case matchQuoted headerValue1 of
                    None \<Rightarrow> Inl TypeError
                  | Some stringValue \<Rightarrow>
                      (let stringValueWithoutTrailingCharacters =
                             substring stringValue 0 (lastIndexOf stringValue CHR 0x22 + 1)
                       in case JSON_parse stringValueWithoutTrailingCharacters of
                            Inl e \<Rightarrow> Inl e
                          | Inr v \<Rightarrow>
                              Inr (substringFrom headerValue1 (int (length stringValue)),
                                   setProp authInfo key v)))
               else
                 (let endOfValue =
                        (if indexOf headerValue1 CHR '','' < 0 then int (length headerValue1)
                         else indexOf headerValue1 CHR '','')
                  in Inr (trimLeft (substringFrom headerValue1 (endOfValue + 1)),
                          setProp authInfo key (substring headerValue1 0 endOfValue)))))\<close>

function parseLoop :: "string \<Rightarrow> string \<Rightarrow> authInfo \<Rightarrow> error + authInfo" where
  "parseLoop originalHeaderValue headerValue authInfo =
     (if length headerValue > 0 then
        (case parseStep originalHeaderValue headerValue authInfo of
           Inl e \<Rightarrow> Inl e
         | Inr (headerValue', authInfo') \<Rightarrow> parseLoop originalHeaderValue headerValue' authInfo')
      else Inr authInfo)"
  by pat_completeness auto
termination
proof (relation "measure (\<lambda>(originalHeaderValue, headerValue, authInfo). length headerValue)")
  show "wf (measure (\<lambda>(originalHeaderValue, headerValue, authInfo). length headerValue))"
    by simp
next
  fix originalHeaderValue headerValue :: string and authInfo :: authInfo and x headerValue' authInfo'
  assume nonempty: "0 < length headerValue"
    and step: "parseStep originalHeaderValue headerValue authInfo = Inr x"
    and x: "(headerValue', authInfo') = x"
  have from_len: "length (substringFrom s k) = length s - nat k" if "0 \<le> k" for s k
    using that by (auto simp: substringFrom_def substring_def Let_def min_def max_def)
  have trim_len: "length (trimLeft s) \<le> length s" for s
    by (simp add: trimLeft_def length_dropWhile_le)
  have idx: "indexOf s c < int (length s)" if "0 \<le> indexOf s c" for s c
  proof -
    from that have "c \<in> set s" by (auto simp: indexOf_def split: if_splits)
    then have "length (takeWhile (\<lambda>x. x \<noteq> c) s) < length s"
      by (induction s) auto
    with \<open>c \<in> set s\<close> show ?thesis by (simp add: indexOf_def)
  qed
  from step x nonempty have "length headerValue' < length headerValue"
    unfolding parseStep_def Let_def
    using idx [of headerValue "CHR ''=''"] idx [of headerValue "CHR '' ''"]
      trim_len [of "substringFrom (substringFrom headerValue (indexOf headerValue CHR ''='' + 1))
         ((if indexOf (substringFrom headerValue (indexOf headerValue CHR ''='' + 1)) CHR '','' < 0
           then int (length (substringFrom headerValue (indexOf headerValue CHR ''='' + 1)))
           else indexOf (substringFrom headerValue (indexOf headerValue CHR ''='' + 1)) CHR '','') + 1)"]
    by (auto simp: from_len split: if_splits option.splits sum.splits)
  then show "((originalHeaderValue, headerValue', authInfo'), (originalHeaderValue, headerValue, authInfo))
      \<in> measure (\<lambda>(originalHeaderValue, headerValue, authInfo). length headerValue)"
    by simp
qed

declare parseLoop.simps [simp del]

text \<open>
  The loop ends when the rest is empty; every turn shortens it. The argument of the
  function is a string by its type, so the guard \<^verbatim>\<open>!isString(headerValue)\<close> of
  the source never fires.
\<close>

definition parseWwwAuthenticateHeader :: "string \<Rightarrow> error + authInfo" where
  "parseWwwAuthenticateHeader headerValue = parseLoop headerValue headerValue Map.empty"

subsection \<open>Collecting and selecting the offered schemes\<close>

text \<open>
  The object \<^verbatim>\<open>authInfos\<close> starts as \<^verbatim>\<open>{}\<close>: no property of its own, and
  \<^verbatim>\<open>Object.prototype\<close> as its prototype (\<open>None\<close> below). The assignment
  \<^verbatim>\<open>authInfos[key] = authInfo\<close> adds or replaces an own property, except for the name
  \<^verbatim>\<open>__proto__\<close>: that makes the assigned object the prototype of \<^verbatim>\<open>authInfos\<close> and
  adds no property.
\<close>

record authInfos =
  ownProps :: "(string \<times> authInfo) list"
  prototype :: "authInfo option"

definition emptyObject :: authInfos where
  "emptyObject = \<lparr>ownProps = [], prototype = None\<rparr>"

definition assignScheme :: "authInfos \<Rightarrow> string \<Rightarrow> authInfo \<Rightarrow> authInfos" where
  "assignScheme authInfos key authInfo =
     (if key = ''__proto__'' then authInfos\<lparr>prototype := Some authInfo\<rparr>
      else authInfos\<lparr>ownProps := setKey (ownProps authInfos) key authInfo\<rparr>)"

text \<open>
  The reads \<^verbatim>\<open>authInfos.digest\<close> and \<^verbatim>\<open>authInfos.basic\<close> go through the prototype chain:
  an own property is a parsed object; failing that, a property of that name of the
  prototype is one of its attributes, a string; \<^verbatim>\<open>Object.prototype\<close> has neither name.
  Every property the code then reads from a string is \<^verbatim>\<open>undefined\<close> (\<open>props\<close>).
\<close>

datatype authValue = AuthObject authInfo | AuthString string

definition props :: "authValue \<Rightarrow> authInfo" where
  "props v = (case v of AuthObject a \<Rightarrow> a | AuthString s \<Rightarrow> Map.empty)"

definition getScheme :: "authInfos \<Rightarrow> string \<Rightarrow> authValue option" where
  "getScheme authInfos name =
     (case map_of (ownProps authInfos) name of
        Some a \<Rightarrow> Some (AuthObject a)
      | None \<Rightarrow>
          (case prototype authInfos of
             None \<Rightarrow> None
           | Some p \<Rightarrow> map_option AuthString (p name)))"

text \<open>
  The loop \<^verbatim>\<open>for (let key in authInfos)\<close> with its guard
  \<^verbatim>\<open>authInfos.hasOwnProperty(key)\<close> (lines 99-107) collects the own keys. The call
  reaches the method of \<^verbatim>\<open>Object.prototype\<close> unless a property named
  \<^verbatim>\<open>hasOwnProperty\<close> of \<^verbatim>\<open>authInfos\<close> or of its prototype hides it; that property is
  then itself a key the loop visits, and calling it throws a \<^verbatim>\<open>TypeError\<close>.
\<close>

definition hasOwnPropertyHidden :: "authInfos \<Rightarrow> bool" where
  "hasOwnPropertyHidden authInfos =
     (map_of (ownProps authInfos) ''hasOwnProperty'' \<noteq> None
      \<or> (case prototype authInfos of None \<Rightarrow> False | Some p \<Rightarrow> p ''hasOwnProperty'' \<noteq> None))"

definition serverAcceptableAuthTypes :: "authInfos \<Rightarrow> error + string list" where
  "serverAcceptableAuthTypes authInfos =
     (if hasOwnPropertyHidden authInfos then Inl TypeError
      else Inr (ownKeys (ownProps authInfos)))"

text \<open>
  The argument \<^verbatim>\<open>string | string[]\<close> of \<^verbatim>\<open>setWwwAuthenticate\<close> and
  \<^verbatim>\<open>getAuthorizeHeaderForWwwAuthenticate\<close>, and the code both functions start with
  (lines 79 and 84-92, and again lines 123-133): every value is parsed and assigned under
  its \<^verbatim>\<open>authType\<close>, a later value replacing an earlier one of the same scheme.
\<close>

datatype headerValues = One string | Many "string list"

fun parseEach :: "string list \<Rightarrow> authInfos \<Rightarrow> error + authInfos" where
  "parseEach [] authInfos = Inr authInfos"
| "parseEach (h # hs) authInfos =
     (case parseWwwAuthenticateHeader h of
        Inl e \<Rightarrow> Inl e
      | Inr authInfo \<Rightarrow>
          parseEach hs (assignScheme authInfos (str (authInfo ''authType'')) authInfo))"

definition parseAuthInfos :: "headerValues \<Rightarrow> error + authInfos" where
  "parseAuthInfos wwwAuthenticate =
     (case wwwAuthenticate of
        Many hs \<Rightarrow> parseEach hs emptyObject
      | One h \<Rightarrow>
          (case parseWwwAuthenticateHeader h of
             Inl e \<Rightarrow> Inl e
           | Inr authInfo \<Rightarrow>
               Inr (assignScheme emptyObject (str (authInfo ''authType'')) authInfo)))"

text \<open>
  The choice among the collected schemes, the second half of \<^verbatim>\<open>setWwwAuthenticate\<close>
  (lines 94-110): what \<^verbatim>\<open>authInfos.digest\<close> holds, else what \<^verbatim>\<open>authInfos.basic\<close> holds,
  else the error that lists the own keys of \<^verbatim>\<open>authInfos\<close>.
\<close>

definition selectAuthInfo :: "authInfos \<Rightarrow> error + authValue" where
  "selectAuthInfo authInfos =
     (case getScheme authInfos ''digest'' of
        Some digest \<Rightarrow> Inr digest
      | None \<Rightarrow>
          (case getScheme authInfos ''basic'' of
             Some basic \<Rightarrow> Inr basic
           | None \<Rightarrow>
               (case serverAcceptableAuthTypes authInfos of
                  Inl e \<Rightarrow> Inl e
                | Inr keys \<Rightarrow>
                    Inl (Error (''No supported authorization types in ''
                                @ JSON_stringify keys)))))"

subsection \<open>\<^verbatim>\<open>getAuthorizeHeaderForWwwAuthenticate\<close>\<close>

text \<open>Lines 114-160.\<close>

definition getAuthorizeHeaderForWwwAuthenticate ::
  "headerValues \<Rightarrow> string option \<Rightarrow> string option \<Rightarrow> string option \<Rightarrow> nat \<Rightarrow> string \<Rightarrow> string
     \<Rightarrow> string option \<Rightarrow> error + string" where
  "getAuthorizeHeaderForWwwAuthenticate authHeader username password clientNonce nonceCount
       method path body =
     (case parseAuthInfos authHeader of
        Inl e \<Rightarrow> Inl e
      | Inr authInfos \<Rightarrow>
          (case getScheme authInfos ''digest'' of
             Some digest \<Rightarrow>
               createDigestAuthenticationString (props digest) username password method path
                 clientNonce nonceCount body
           | None \<Rightarrow>
               (case getScheme authInfos ''basic'' of
                  Some basic \<Rightarrow> Inr (createBasicAuthenticationString username password)
                | None \<Rightarrow>
                    (case serverAcceptableAuthTypes authInfos of
                       Inl e \<Rightarrow> Inl e
                     | Inr keys \<Rightarrow>
                         Inl (Error (''No supported authorization types in ''
                                     @ JSON_stringify keys))))))"

subsection \<open>The class \<^verbatim>\<open>HttpAuthenticator\<close>\<close>

record HttpAuthenticator =
  nonceCount :: nat
  authInfo :: "authValue option"
  username :: "string option"
  password :: "string option"
  clientNonce :: string

text \<open>
  Lines 24-112. The fields \<^verbatim>\<open>authInfo\<close>, \<^verbatim>\<open>username\<close> and \<^verbatim>\<open>password\<close> are
  \<^verbatim>\<open>undefined\<close> until they are assigned; \<^verbatim>\<open>authInfo\<close> holds whatever
  \<^verbatim>\<open>setWwwAuthenticate\<close> selected. In the constructor, \<open>rnd\<close> is the random
  buffer drawn for the client nonce.
\<close>

definition newHttpAuthenticator :: "8 word list \<Rightarrow> HttpAuthenticator" where
  "newHttpAuthenticator rnd =
     \<lparr>nonceCount = 1, authInfo = None, username = None, password = None,
      clientNonce = createRandHexStringSync 16 rnd\<rparr>"

definition setCredentials :: "string \<Rightarrow> string \<Rightarrow> HttpAuthenticator \<Rightarrow> HttpAuthenticator" where
  "setCredentials u p this = this\<lparr>username := Some u, password := Some p\<rparr>"

definition getUsername :: "HttpAuthenticator \<Rightarrow> string option" where
  "getUsername this = username this"

definition getPassword :: "HttpAuthenticator \<Rightarrow> string option" where
  "getPassword this = password this"

definition isValid :: "HttpAuthenticator \<Rightarrow> bool" where
  "isValid this = (authInfo this \<noteq> None \<and> username this \<noteq> None \<and> password this \<noteq> None)"

text \<open>
  \<^verbatim>\<open>this.nonceCount++\<close> is an argument of the call of
  \<^verbatim>\<open>createDigestAuthenticationString\<close>: the counter is incremented before the call, and
  stays incremented when the call throws.
\<close>

definition getAuthorizationHeader ::
  "string \<Rightarrow> string \<Rightarrow> string option \<Rightarrow> HttpAuthenticator
     \<Rightarrow> (error + string) \<times> HttpAuthenticator" where
  \<open>getAuthorizationHeader method uri body this =
     (case authInfo this of
        None \<Rightarrow>
          (Inl (Error (''Precondition failed. Call updateWwwAuthenticate() first ''
                       @ ''with the value of the WWW-Authenticate header.'')), this)
      | Some v \<Rightarrow>
          if props v ''authType'' = Some ''digest'' then
            (createDigestAuthenticationString (props v) (username this) (password this)
               method uri (Some (clientNonce this)) (nonceCount this) body,
             this\<lparr>nonceCount := nonceCount this + 1\<rparr>)
          else if props v ''authType'' = Some ''basic'' then
            (Inr (createBasicAuthenticationString (username this) (password this)), this)
          else
            (Inl (Error (''Internal error: unknown auth type "'' @ str (props v ''authType'')
                         @ ''"'')),
             this))\<close>

text \<open>Reading \<^verbatim>\<open>this.authInfo.stale\<close> throws when no challenge is installed.\<close>

definition previousFailedRequestWasStale :: "HttpAuthenticator \<Rightarrow> error + bool" where
  "previousFailedRequestWasStale this =
     (case authInfo this of
        None \<Rightarrow> Inl TypeError
      | Some v \<Rightarrow>
          Inr (case props v ''stale'' of
                 None \<Rightarrow> False
               | Some stale \<Rightarrow> toLowerCase stale = ''true''))"

text \<open>
  \<^verbatim>\<open>setWwwAuthenticate\<close> resets the counter and draws a new client nonce (from the random
  buffer \<open>rnd\<close>) before it parses anything.
\<close>

definition setWwwAuthenticate ::
  "headerValues \<Rightarrow> 8 word list \<Rightarrow> HttpAuthenticator \<Rightarrow> (error + unit) \<times> HttpAuthenticator" where
  "setWwwAuthenticate wwwAuthenticate rnd this =
     (let this1 = this\<lparr>nonceCount := 1, clientNonce := createRandHexStringSync 16 rnd\<rparr>
      in case parseAuthInfos wwwAuthenticate of
           Inl e \<Rightarrow> (Inl e, this1)
         | Inr authInfos \<Rightarrow>
             (case selectAuthInfo authInfos of
                Inl e \<Rightarrow> (Inl e, this1)
              | Inr v \<Rightarrow> (Inr (), this1\<lparr>authInfo := Some v\<rparr>)))"

text \<open>
  The methods of the class as one alphabet of operations, with the session each leaves
  behind.
\<close>

datatype operation =
    SetCredentials string string
  | GetUsername
  | GetPassword
  | IsValid
  | GetAuthorizationHeader string string "string option"
  | PreviousFailedRequestWasStale
  | SetWwwAuthenticate headerValues "8 word list"

fun after :: "operation \<Rightarrow> HttpAuthenticator \<Rightarrow> HttpAuthenticator" where
  "after (SetCredentials u p) this = setCredentials u p this"
| "after GetUsername this = this"
| "after GetPassword this = this"
| "after IsValid this = this"
| "after (GetAuthorizationHeader method uri body) this =
     snd (getAuthorizationHeader method uri body this)"
| "after PreviousFailedRequestWasStale this = this"
| "after (SetWwwAuthenticate wwwAuthenticate rnd) this =
     snd (setWwwAuthenticate wwwAuthenticate rnd this)"

section \<open>The nonce count as text\<close>

lemma hexValue_hexDigitLower: "d < 16 \<Longrightarrow> hexValue (hexDigitLower d) = Some d"
proof -
  assume "d < 16"
  then have "d \<in> {0, 1, 2, 3, 4, 5, 6, 7, 8, 9, 10, 11, 12, 13, 14, 15}"
    by simp arith
  then show ?thesis
    by (auto simp: hexValue_def hexDigitLower_def)
qed

lemma parseHexFrom_append:
  "parseHexFrom acc (xs @ ys) =
     (case parseHexFrom acc xs of None \<Rightarrow> None | Some a \<Rightarrow> parseHexFrom a ys)"
  by (induction xs arbitrary: acc) (auto split: option.splits)

lemma parseHexFrom_zeros: "parseHexFrom 0 (replicate k CHR ''0'' @ s) = parseHexFrom 0 s"
  by (induction k) (auto simp: hexValue_def)

lemma toString16_nonempty: "toString16 n \<noteq> []"
  by (subst toString16.simps) simp

lemma parseHexFrom_toString16: "parseHexFrom 0 (toString16 n) = Some n"
proof (induction n rule: toString16.induct)
  case (1 n)
  show ?case
  proof (cases "n < 16")
    case True
    then show ?thesis
      by (subst toString16.simps) (simp add: hexValue_hexDigitLower)
  next
    case False
    with "1" have "parseHexFrom 0 (toString16 (n div 16)) = Some (n div 16)" by simp
    with False show ?thesis
      by (subst toString16.simps)
         (simp add: parseHexFrom_append hexValue_hexDigitLower)
  qed
qed

lemma length_toString16: "n < 16 ^ Suc j \<Longrightarrow> length (toString16 n) \<le> Suc j"
proof (induction j arbitrary: n)
  case 0
  then show ?case by (subst toString16.simps) simp
next
  case (Suc j)
  show ?case
  proof (cases "n < 16")
    case True
    then show ?thesis by (subst toString16.simps) simp
  next
    case False
    from Suc.prems have "n div 16 < 16 ^ Suc j"
      by (simp add: less_mult_imp_div_less mult.commute)
    then have "length (toString16 (n div 16)) \<le> Suc j" by (rule Suc.IH)
    with False show ?thesis by (subst toString16.simps) simp
  qed
qed

lemma hexDigitLower_in: "d < 16 \<Longrightarrow> hexDigitLower d \<in> set ''0123456789abcdef''"
  unfolding hexDigitLower_def by (rule nth_mem) simp

lemma set_toString16: "set (toString16 n) \<subseteq> set ''0123456789abcdef''"
proof (induction n rule: toString16.induct)
  case (1 n)
  show ?case
  proof (cases "n < 16")
    case True
    then show ?thesis
      by (subst toString16.simps) (use hexDigitLower_in [of n] in simp)
  next
    case False
    with "1" have "set (toString16 (n div 16)) \<subseteq> set ''0123456789abcdef''" by simp
    with False show ?thesis
      by (subst toString16.simps) (use hexDigitLower_in [of "n mod 16"] in simp)
  qed
qed

lemma length_toPaddedHexString_8:
  "n \<le> 0xFFFFFFFF \<Longrightarrow> length (toPaddedHexString n 8) = 8"
proof -
  assume "n \<le> 0xFFFFFFFF"
  then have "n < 16 ^ 8" by simp
  then have "length (toString16 n) \<le> Suc 7" by (intro length_toString16) simp
  then show ?thesis by (simp add: toPaddedHexString_def Let_def)
qed

lemma set_toPaddedHexString:
  "set (toPaddedHexString n padTo) \<subseteq> set ''0123456789abcdef''"
  using set_toString16 [of n] by (auto simp: toPaddedHexString_def Let_def)

text \<open>
  C7. For every nonce count \<open>n\<close> in \<open>[0, 0xFFFFFFFF]\<close>, \<open>toPaddedHexString n 8\<close> has
  at least 8 characters and reads back, as hexadecimal, to \<open>n\<close>.
\<close>

theorem toPaddedHexString_roundtrip:
  "n \<le> 0xFFFFFFFF \<Longrightarrow>
     8 \<le> length (toPaddedHexString n 8) \<and> parseHex (toPaddedHexString n 8) = Some n"
  by (auto simp: toPaddedHexString_def parseHex_def Let_def toString16_nonempty
        parseHexFrom_zeros parseHexFrom_toString16)

theorem toPaddedHexString_roundtrip_witness:
  "(4294967295::nat) \<le> 0xFFFFFFFF \<and> 8 \<le> length (toPaddedHexString 4294967295 8)
     \<and> parseHex (toPaddedHexString 4294967295 8) = Some 4294967295"
  using toPaddedHexString_roundtrip [of 4294967295] by simp

section \<open>MD5 digests\<close>

lemma length_md5: "length (md5 m) = 32"
proof -
  obtain a b c d where st:
    "foldl md5_block (0x67452301, 0xefcdab89, 0x98badcfe, 0x10325476)
       (blocks16 (length (md5_words (md5_pad m)) div 16) (md5_words (md5_pad m))) = (a, b, c, d)"
    by (metis prod_cases4)
  have hb: "length (concat (map hexByte bs)) = 2 * length bs" for bs
    by (induction bs) (simp_all add: hexByte_def)
  have lb: "length (leBytes32 w) = 4" for w
    by (simp add: leBytes32_def)
  show ?thesis
    by (simp add: md5_def Let_def st hb lb)
qed

lemma md5_Mufasa_a1:
  "md5 ''Mufasa:testrealm@host.com:Circle Of Life'' = ''939e7578ed9e3c518a452acee763bce9''"
  by code_simp

section \<open>Basic authentication\<close>

text \<open>
  C8. For all usernames and passwords, the Basic encoder returns "Basic " followed by the
  base64 encoding of \<open>username:password\<close>, and a colon in either is not escaped: moving
  a colon-separated part from the username to the password gives the same header. The
  inputs "Aladdin" and "open sesame" yield exactly "Basic QWxhZGRpbjpvcGVuIHNlc2FtZQ==".
\<close>

theorem createBasicAuthenticationString_base64:
  "createBasicAuthenticationString (Some u) (Some p) = ''Basic '' @ base64 (u @ '':'' @ p)
   \<and> createBasicAuthenticationString (Some (u @ '':'' @ v)) (Some p)
       = createBasicAuthenticationString (Some u) (Some (v @ '':'' @ p))
   \<and> createBasicAuthenticationString (Some ''Aladdin'') (Some ''open sesame'')
       = ''Basic QWxhZGRpbjpvcGVuIHNlc2FtZQ==''"
  by (simp add: createBasicAuthenticationString_def str_def base64_def base64Char_def)

section \<open>The digest response\<close>

lemma toPaddedHexString_1_8: "toPaddedHexString (Suc 0) 8 = ''00000001''"
  by code_simp

lemma toPaddedHexString_2_8: "toPaddedHexString 2 8 = ''00000002''"
  by code_simp

lemma split_nonempty: "split s c \<noteq> []"
  by (induction s) (auto split: list.splits)

text \<open>
  C3. With a qop of auth or auth-int (and the nonce and the client nonce set), the
  response is the MD5 of \<open>HA1:nonce:nc:clientNonce:qop:HA2\<close>, where \<open>nc\<close> is the nonce
  count as 8 lowercase hexadecimal digits (for a count up to \<open>0xFFFFFFFF\<close>); with no
  qop it is the MD5 of \<open>HA1:nonce:HA2\<close>.
\<close>

theorem createDigestResponse_formula:
  "((q = ''auth'' \<or> q = ''auth-int'') \<and> a ''nonce'' = Some nonce \<longrightarrow>
      createDigestResponse a u p m uri (Some cn) nc (Some q) body =
        Inr (md5 (str (digestHA1 a u p (Some cn)) @ '':'' @ nonce @ '':''
                  @ toPaddedHexString nc 8 @ '':'' @ cn @ '':'' @ q @ '':''
                  @ str (digestHA2 m uri (Some q) (case body of None \<Rightarrow> [] | Some b \<Rightarrow> b)))))
   \<and> createDigestResponse a u p m uri cnonce nc None body =
        Inr (md5 (str (digestHA1 a u p cnonce) @ '':'' @ str (a ''nonce'') @ '':''
                  @ str (digestHA2 m uri None (case body of None \<Rightarrow> [] | Some b \<Rightarrow> b))))
   \<and> (nc \<le> 0xFFFFFFFF \<longrightarrow>
        length (toPaddedHexString nc 8) = 8
        \<and> set (toPaddedHexString nc 8) \<subseteq> set ''0123456789abcdef'')"
  using length_toPaddedHexString_8 [of nc] set_toPaddedHexString [of nc 8]
  by (auto simp: createDigestResponse_def Let_def str_def)

theorem createDigestResponse_formula_witness:
  "createDigestResponse [''nonce'' \<mapsto> ''abc'', ''realm'' \<mapsto> ''r''] (Some ''u'') (Some ''p'')
       ''GET'' ''/'' (Some ''0a4f113b'') 1 (Some ''auth'') None =
     Inr (md5 (md5 ''u:r:p'' @ '':abc:00000001:0a4f113b:auth:'' @ md5 ''GET:/''))
   \<and> createDigestResponse [''nonce'' \<mapsto> ''abc'', ''realm'' \<mapsto> ''r''] (Some ''u'') (Some ''p'')
       ''GET'' ''/'' (Some ''0a4f113b'') 1 None None =
     Inr (md5 (md5 ''u:r:p'' @ '':abc:'' @ md5 ''GET:/''))
   \<and> toPaddedHexString 1 8 = ''00000001''"
  using createDigestResponse_formula [of "''auth''"
      "[''nonce'' \<mapsto> ''abc'', ''realm'' \<mapsto> ''r'']" "''abc''" "Some ''u''" "Some ''p''"
      "''GET''" "''/''" "''0a4f113b''" 1 None "Some ''0a4f113b''"]
  by (simp add: digestHA1_def digestHA2_def str_def toPaddedHexString_1_8)

text \<open>
  C1. With algorithm unset or MD5, HA1 is the MD5 of \<open>username:realm:password\<close>. With
  algorithm MD5-sess, HA1 is specified (as in RFC 2617) as the MD5 of that digest, the
  nonce and the client nonce joined by colons; the code takes the joined text itself,
  without the outer MD5, and the two differ on every input (a digest has 32 characters).
\<close>

theorem digestHA1_by_algorithm:
  "(a ''algorithm'' = None \<or> a ''algorithm'' = Some ''MD5'' \<longrightarrow>
      digestHA1 a u p cn = Some (md5 (str u @ '':'' @ str (a ''realm'') @ '':'' @ str p)))
   \<and> (a ''algorithm'' = Some ''MD5-sess'' \<longrightarrow>
      digestHA1 a u p cn =
        Some (md5 (str u @ '':'' @ str (a ''realm'') @ '':'' @ str p)
              @ '':'' @ str (a ''nonce'') @ '':'' @ str cn)
      \<and> digestHA1 a u p cn \<noteq>
        Some (md5 (md5 (str u @ '':'' @ str (a ''realm'') @ '':'' @ str p)
                   @ '':'' @ str (a ''nonce'') @ '':'' @ str cn)))"
proof -
  have "length (md5 x @ '':'' @ y @ '':'' @ z) \<noteq> length (md5 w)" for x y z w
    by (simp add: length_md5)
  then have "md5 x @ '':'' @ y @ '':'' @ z \<noteq> md5 w" for x y z w
    by metis
  then show ?thesis
    by (simp add: digestHA1_def Let_def)
qed

theorem digestHA1_by_algorithm_witness:
  "digestHA1 [''realm'' \<mapsto> ''testrealm@host.com'', ''algorithm'' \<mapsto> ''MD5'']
       (Some ''Mufasa'') (Some ''Circle Of Life'') (Some ''0a4f113b'')
     = Some ''939e7578ed9e3c518a452acee763bce9''
   \<and> digestHA1 [''realm'' \<mapsto> ''testrealm@host.com'',
                 ''nonce'' \<mapsto> ''dcd98b7102dd2f0e8b11d0f600bfb0c093'',
                 ''algorithm'' \<mapsto> ''MD5-sess'']
       (Some ''Mufasa'') (Some ''Circle Of Life'') (Some ''0a4f113b'')
     = Some ''939e7578ed9e3c518a452acee763bce9:dcd98b7102dd2f0e8b11d0f600bfb0c093:0a4f113b''
   \<and> digestHA1 [''realm'' \<mapsto> ''testrealm@host.com'',
                 ''nonce'' \<mapsto> ''dcd98b7102dd2f0e8b11d0f600bfb0c093'',
                 ''algorithm'' \<mapsto> ''MD5-sess'']
       (Some ''Mufasa'') (Some ''Circle Of Life'') (Some ''0a4f113b'')
     \<noteq> Some (md5 ''939e7578ed9e3c518a452acee763bce9:dcd98b7102dd2f0e8b11d0f600bfb0c093:0a4f113b'')"
proof -
  let ?md5 = "[''realm'' \<mapsto> ''testrealm@host.com'', ''algorithm'' \<mapsto> ''MD5'']"
  let ?sess = "[''realm'' \<mapsto> ''testrealm@host.com'',
                ''nonce'' \<mapsto> ''dcd98b7102dd2f0e8b11d0f600bfb0c093'',
                ''algorithm'' \<mapsto> ''MD5-sess'']"
  note plain = digestHA1_by_algorithm [of ?md5 "Some ''Mufasa''" "Some ''Circle Of Life''"
      "Some ''0a4f113b''"]
  note sess = digestHA1_by_algorithm [of ?sess "Some ''Mufasa''" "Some ''Circle Of Life''"
      "Some ''0a4f113b''"]
  from plain have 1: "digestHA1 ?md5 (Some ''Mufasa'') (Some ''Circle Of Life'')
      (Some ''0a4f113b'') = Some ''939e7578ed9e3c518a452acee763bce9''"
    by (simp add: str_def md5_Mufasa_a1)
  from sess have 2: "digestHA1 ?sess (Some ''Mufasa'') (Some ''Circle Of Life'')
      (Some ''0a4f113b'')
      = Some ''939e7578ed9e3c518a452acee763bce9:dcd98b7102dd2f0e8b11d0f600bfb0c093:0a4f113b''"
    by (simp add: str_def md5_Mufasa_a1)
  have "length ''939e7578ed9e3c518a452acee763bce9:dcd98b7102dd2f0e8b11d0f600bfb0c093:0a4f113b''
      \<noteq> length (md5 x)" for x
    by (simp add: length_md5)
  then have "''939e7578ed9e3c518a452acee763bce9:dcd98b7102dd2f0e8b11d0f600bfb0c093:0a4f113b''
      \<noteq> md5 x" for x
    by metis
  with 2 have 3: "digestHA1 ?sess (Some ''Mufasa'') (Some ''Circle Of Life'')
      (Some ''0a4f113b'')
      \<noteq> Some (md5 ''939e7578ed9e3c518a452acee763bce9:dcd98b7102dd2f0e8b11d0f600bfb0c093:0a4f113b'')"
    by simp
  from 1 2 3 show ?thesis by blast
qed

section \<open>Quality of protection\<close>

text \<open>
  C6. The code takes as the qop values of a challenge the pieces of its qop attribute
  between commas, exactly as they stand. Among those pieces auth-int is chosen when it is
  one of them, also when auth is; auth is chosen when only it is; with neither, building
  the header fails with the unsupported-qop error, which quotes the pieces. With no qop
  attribute the header is built in the legacy mode: the response is the MD5 of
  \<open>HA1:nonce:HA2\<close>, and neither qop, nonce count nor client nonce is appended.
  The preference is specified over the values the attribute offers, and a list may have
  white space after a comma: for \<open>auth, auth-int\<close>, which offers both, the code resolves
  auth and not auth-int; for \<open>token, auth\<close>, which offers auth, it fails with the
  unsupported-qop error.
\<close>

theorem resolveQop_preference:
  \<open>(a ''qop'' = Some q \<longrightarrow>
      (''auth-int'' \<in> set (split q CHR '','') \<longrightarrow> resolveQop a = Inr (Some ''auth-int''))
      \<and> (''auth-int'' \<notin> set (split q CHR '','') \<and> ''auth'' \<in> set (split q CHR '','') \<longrightarrow>
           resolveQop a = Inr (Some ''auth''))
      \<and> (''auth-int'' \<notin> set (split q CHR '','') \<and> ''auth'' \<notin> set (split q CHR '','') \<longrightarrow>
           createDigestAuthenticationString a u p m uri cn nc body =
             Inl (Error (''No supported QOP type in '' @ JSON_stringify (split q CHR '','')))))
   \<and> (a ''qop'' = None \<longrightarrow>
      resolveQop a = Inr None
      \<and> createDigestAuthenticationString a u p m uri cn nc body =
          Inr (''Digest username="'' @ str u
               @ ''", realm="'' @ str (a ''realm'')
               @ ''", nonce="'' @ str (a ''nonce'')
               @ ''", uri="'' @ uri
               @ ''", response="''
               @ md5 (str (digestHA1 a u p cn) @ '':'' @ str (a ''nonce'') @ '':''
                      @ str (digestHA2 m uri None (case body of None \<Rightarrow> [] | Some b \<Rightarrow> b)))
               @ ''"''
               @ (case a ''opaque'' of None \<Rightarrow> [] | Some opaque \<Rightarrow> '', opaque="'' @ opaque @ ''"'')))
   \<and> offeredQops ''auth, auth-int'' = [''auth'', ''auth-int'']
   \<and> resolveQop [''qop'' \<mapsto> ''auth, auth-int''] = Inr (Some ''auth'')
   \<and> offeredQops ''token, auth'' = [''token'', ''auth'']
   \<and> resolveQop [''qop'' \<mapsto> ''token, auth'']
       = Inl (Error ''No supported QOP type in ["token"," auth"]'')\<close>
proof -
  have none: "a ''qop'' = None \<Longrightarrow> resolveQop a = Inr None"
    by (simp add: resolveQop_def)
  have some: "a ''qop'' = Some q \<Longrightarrow>
      resolveQop a =
        (if ''auth-int'' \<in> set (split q CHR '','') then Inr (Some ''auth-int'')
         else if ''auth'' \<in> set (split q CHR '','') then Inr (Some ''auth'')
         else Inl (Error (''No supported QOP type in '' @ JSON_stringify (split q CHR '',''))))"
    by (simp add: resolveQop_def split_nonempty)
  have general: \<open>(a ''qop'' = Some q \<longrightarrow>
      (''auth-int'' \<in> set (split q CHR '','') \<longrightarrow> resolveQop a = Inr (Some ''auth-int''))
      \<and> (''auth-int'' \<notin> set (split q CHR '','') \<and> ''auth'' \<in> set (split q CHR '','') \<longrightarrow>
           resolveQop a = Inr (Some ''auth''))
      \<and> (''auth-int'' \<notin> set (split q CHR '','') \<and> ''auth'' \<notin> set (split q CHR '','') \<longrightarrow>
           createDigestAuthenticationString a u p m uri cn nc body =
             Inl (Error (''No supported QOP type in '' @ JSON_stringify (split q CHR '','')))))
   \<and> (a ''qop'' = None \<longrightarrow>
      resolveQop a = Inr None
      \<and> createDigestAuthenticationString a u p m uri cn nc body =
          Inr (''Digest username="'' @ str u
               @ ''", realm="'' @ str (a ''realm'')
               @ ''", nonce="'' @ str (a ''nonce'')
               @ ''", uri="'' @ uri
               @ ''", response="''
               @ md5 (str (digestHA1 a u p cn) @ '':'' @ str (a ''nonce'') @ '':''
                      @ str (digestHA2 m uri None (case body of None \<Rightarrow> [] | Some b \<Rightarrow> b)))
               @ ''"''
               @ (case a ''opaque'' of None \<Rightarrow> [] | Some opaque \<Rightarrow> '', opaque="'' @ opaque @ ''"'')))\<close>
    using none some
    by (auto simp: createDigestAuthenticationString_def createDigestResponse_def Let_def)
  have offered: "offeredQops ''auth, auth-int'' = [''auth'', ''auth-int'']"
    "offeredQops ''token, auth'' = [''token'', ''auth'']"
    by (simp_all add: offeredQops_def trim_def isWhiteSpace_def)
  have both: "resolveQop [''qop'' \<mapsto> ''auth, auth-int''] = Inr (Some ''auth'')"
    by (simp add: resolveQop_def)
  have only_auth: \<open>resolveQop [''qop'' \<mapsto> ''token, auth'']
       = Inl (Error ''No supported QOP type in ["token"," auth"]'')\<close>
    by (simp add: resolveQop_def JSON_stringify_def jsonQuote_def jsonQuoteChar_def)
  show ?thesis
    apply (rule conjI, rule general [THEN conjunct1])
    apply (rule conjI, rule general [THEN conjunct2])
    apply (rule conjI, rule offered(1))
    apply (rule conjI, rule both)
    apply (rule conjI, rule offered(2))
    apply (rule only_auth)
    done
qed

theorem resolveQop_preference_witness:
  \<open>resolveQop [''qop'' \<mapsto> ''auth,auth-int''] = Inr (Some ''auth-int'')
   \<and> resolveQop [''qop'' \<mapsto> ''auth''] = Inr (Some ''auth'')
   \<and> createDigestAuthenticationString [''qop'' \<mapsto> ''token''] (Some ''u'') (Some ''p'')
        ''GET'' ''/'' (Some ''c'') 1 None
      = Inl (Error ''No supported QOP type in ["token"]'')
   \<and> createDigestAuthenticationString [''realm'' \<mapsto> ''r'', ''nonce'' \<mapsto> ''n''] (Some ''u'')
        (Some ''p'') ''GET'' ''/'' (Some ''c'') 1 None
      = Inr (''Digest username="u", realm="r", nonce="n", uri="/", response="''
             @ md5 (md5 ''u:r:p'' @ '':n:'' @ md5 ''GET:/'') @ ''"'')
   \<and> resolveQop [''qop'' \<mapsto> ''auth, auth-int''] = Inr (Some ''auth'')\<close>
proof -
  have 5: "resolveQop [''qop'' \<mapsto> ''auth, auth-int''] = Inr (Some ''auth'')"
    using resolveQop_preference [of "[''qop'' \<mapsto> ''auth, auth-int'']" "''auth, auth-int''"]
    by simp
  have 1: "resolveQop [''qop'' \<mapsto> ''auth,auth-int''] = Inr (Some ''auth-int'')"
    using resolveQop_preference [of "[''qop'' \<mapsto> ''auth,auth-int'']" "''auth,auth-int''"]
    by simp
  have 2: "resolveQop [''qop'' \<mapsto> ''auth''] = Inr (Some ''auth'')"
    using resolveQop_preference [of "[''qop'' \<mapsto> ''auth'']" "''auth''"]
    by simp
  have 3: \<open>createDigestAuthenticationString [''qop'' \<mapsto> ''token''] (Some ''u'') (Some ''p'')
        ''GET'' ''/'' (Some ''c'') 1 None
      = Inl (Error ''No supported QOP type in ["token"]'')\<close>
    using resolveQop_preference [of "[''qop'' \<mapsto> ''token'']" "''token''" "Some ''u''"
        "Some ''p''" "''GET''" "''/''" "Some ''c''" 1 None]
    by (simp add: JSON_stringify_def jsonQuote_def jsonQuoteChar_def)
  have 4: \<open>createDigestAuthenticationString [''realm'' \<mapsto> ''r'', ''nonce'' \<mapsto> ''n''] (Some ''u'')
        (Some ''p'') ''GET'' ''/'' (Some ''c'') 1 None
      = Inr (''Digest username="u", realm="r", nonce="n", uri="/", response="''
             @ md5 (md5 ''u:r:p'' @ '':n:'' @ md5 ''GET:/'') @ ''"'')\<close>
    using resolveQop_preference [of "[''realm'' \<mapsto> ''r'', ''nonce'' \<mapsto> ''n'']" _ "Some ''u''"
        "Some ''p''" "''GET''" "''/''" "Some ''c''" 1 None]
    by (simp add: str_def digestHA1_def digestHA2_def)
  from 1 2 3 4 5 show ?thesis by blast
qed

section \<open>The parser\<close>















text \<open>A quoted value with escapes of a surrogate pair, and of a high surrogate alone.\<close>

lemma parseHex_D83D: "parseHex ''D83D'' = Some 0xD83D"
  by (simp add: parseHex_def hexValue_def)

lemma parseHex_DE00: "parseHex ''DE00'' = Some 0xDE00"
  by (simp add: parseHex_def hexValue_def)

lemma utf8_1F600: "utf8 0x1F600 = [CHR 0xF0, CHR 0x9F, CHR 0x98, CHR 0x80]"
  by (simp add: utf8_def char_of_def bit_0)

lemma utf8_FFFD: "utf8 0xFFFD = [CHR 0xEF, CHR 0xBF, CHR 0xBD]"
  by (simp add: utf8_def char_of_def bit_0)

lemma JSON_parse_surrogate_pair:
  "JSON_parse ([CHR 0x22, CHR 0x5C] @ ''uD83D'' @ [CHR 0x5C] @ ''uDE00'' @ [CHR 0x22])
     = Inr [CHR 0xF0, CHR 0x9F, CHR 0x98, CHR 0x80]"
  using utf8_1F600
  by (simp add: JSON_parse_def parseHex_D83D parseHex_DE00 isHighSurrogate_def
        isLowSurrogate_def lowSurrogateEscape_def)

lemma JSON_parse_lone_surrogate:
  "JSON_parse ([CHR 0x22, CHR 0x5C] @ ''uD83Dx'' @ [CHR 0x22])
     = Inr [CHR 0xEF, CHR 0xBF, CHR 0xBD, CHR ''x'']"
  using utf8_FFFD
  by (simp add: JSON_parse_def parseHex_D83D isHighSurrogate_def
        isLowSurrogate_def lowSurrogateEscape_def)

text \<open>Evaluating the parser on a given header value.\<close>

lemma toLowerCase_NTLM: "toLowerCase ''NTLM'' = ''ntlm''"
  by code_simp

lemma toLowerCase_Digest: "toLowerCase ''Digest'' = ''digest''"
  by code_simp

lemmas parse_eval =
  parseWwwAuthenticateHeader_def parseLoop.simps parseStep_def indexOf_def lastIndexOf_def
  substring_def substringFrom_def startsWith_def toLowerCase_NTLM toLowerCase_Digest
  trimLeft_def isWhiteSpace_def matchQuoted_def JSON_parse_def setProp_def Let_def

lemma parse_NTLM:
  \<open>parseWwwAuthenticateHeader ''NTLM realm="x"'' = Inr [''authType'' \<mapsto> ''ntlm'', ''realm'' \<mapsto> ''x'']\<close>
  by (simp add: parse_eval)

lemma parse_Digest_x:
  \<open>parseWwwAuthenticateHeader ''Digest x=1'' = Inr [''authType'' \<mapsto> ''digest'', ''x'' \<mapsto> ''1'']\<close>
  by (simp add: parse_eval)

lemma parse_Digest_auth:
  \<open>parseWwwAuthenticateHeader ''Digest realm="r", nonce="n", qop="auth"''
     = Inr [''authType'' \<mapsto> ''digest'', ''realm'' \<mapsto> ''r'', ''nonce'' \<mapsto> ''n'', ''qop'' \<mapsto> ''auth'']\<close>
  by (simp add: parse_eval)


lemma toLowerCase_proto: "toLowerCase ''__proto__'' = ''__proto__''"
  by code_simp


lemma parse_proto_digest:
  \<open>parseWwwAuthenticateHeader ''__proto__ digest=1''
     = Inr [''authType'' \<mapsto> ''__proto__'', ''digest'' \<mapsto> ''1'']\<close>
  by (simp add: parse_eval toLowerCase_proto)


section \<open>Selecting a scheme\<close>


lemma ownKeys_single: "ownKeys [(k, v)] = [k]"
  by (simp add: ownKeys_def)

lemma JSON_stringify_ntlm: \<open>JSON_stringify [''ntlm''] = ''["ntlm"]''\<close>
  by (simp add: JSON_stringify_def jsonQuote_def jsonQuoteChar_def)


lemma parseAuthInfos_One:
  assumes "parseWwwAuthenticateHeader hv = Inr a" and "str (a ''authType'') \<noteq> ''__proto__''"
  shows "parseAuthInfos (One hv)
           = Inr \<lparr>ownProps = [(str (a ''authType''), a)], prototype = None\<rparr>"
  using assms by (simp add: parseAuthInfos_def assignScheme_def emptyObject_def)

lemma parseAuthInfos_One_proto:
  assumes "parseWwwAuthenticateHeader hv = Inr a" and "a ''authType'' = Some ''__proto__''"
  shows "parseAuthInfos (One hv) = Inr \<lparr>ownProps = [], prototype = Some a\<rparr>"
  using assms by (simp add: parseAuthInfos_def assignScheme_def emptyObject_def str_def)

lemma selectAuthInfo_unsupported:
  assumes "getScheme infos ''digest'' = None" and "getScheme infos ''basic'' = None"
    and "\<not> hasOwnPropertyHidden infos"
  shows "selectAuthInfo infos
           = Inl (Error (''No supported authorization types in ''
                         @ JSON_stringify (ownKeys (ownProps infos))))"
  using assms by (simp add: selectAuthInfo_def serverAcceptableAuthTypes_def)



lemma createRandHexStringSync_sample:
  "createRandHexStringSync 16 [1, 2, 3, 4, 5, 6, 7, 255] = ''01020304050607FF''"
  by code_simp




section \<open>The session\<close>

text \<open>
  C9. Whenever \<open>setWwwAuthenticate\<close> throws, it leaves the session with the nonce count
  reset to 1 and a new client nonce, and the challenge installed before is still the
  active one. It throws the unsupported-scheme error when the header values parse and the
  collection of challenges has neither a \<open>digest\<close> nor a \<open>basic\<close> property, own or
  inherited (and \<open>hasOwnProperty\<close> is not hidden). That is not every set of values that
  offers neither digest nor basic: for the one value \<open>__proto__ digest=1\<close>, whose only
  scheme is \<open>__proto__\<close>, the call returns normally, and the active challenge is replaced
  by the string \<open>1\<close>, from which no header can be generated.
\<close>

theorem setWwwAuthenticate_not_atomic:
  \<open>(fst (setWwwAuthenticate www rnd this) = Inl e \<longrightarrow>
      snd (setWwwAuthenticate www rnd this)
        = this\<lparr>nonceCount := 1, clientNonce := createRandHexStringSync 16 rnd\<rparr>)
   \<and> (authInfo this = Some old \<and> parseAuthInfos www = Inr infos
        \<and> getScheme infos ''digest'' = None \<and> getScheme infos ''basic'' = None
        \<and> \<not> hasOwnPropertyHidden infos \<longrightarrow>
      setWwwAuthenticate www rnd this =
        (Inl (Error (''No supported authorization types in ''
                     @ JSON_stringify (ownKeys (ownProps infos)))),
         this\<lparr>nonceCount := 1, clientNonce := createRandHexStringSync 16 rnd\<rparr>)
      \<and> nonceCount (snd (setWwwAuthenticate www rnd this)) = 1
      \<and> clientNonce (snd (setWwwAuthenticate www rnd this)) = createRandHexStringSync 16 rnd
      \<and> authInfo (snd (setWwwAuthenticate www rnd this)) = Some old)
   \<and> setWwwAuthenticate (One ''__proto__ digest=1'') rnd this =
        (Inr (), this\<lparr>nonceCount := 1, clientNonce := createRandHexStringSync 16 rnd,
                      authInfo := Some (AuthString ''1'')\<rparr>)
   \<and> fst (getAuthorizationHeader m uri body
            (snd (setWwwAuthenticate (One ''__proto__ digest=1'') rnd this)))
        = Inl (Error ''Internal error: unknown auth type "undefined"'')\<close>
proof -
  have throws: "snd (setWwwAuthenticate www rnd this)
      = this\<lparr>nonceCount := 1, clientNonce := createRandHexStringSync 16 rnd\<rparr>"
    if "fst (setWwwAuthenticate www rnd this) = Inl e"
    using that by (simp add: setWwwAuthenticate_def Let_def split: sum.splits)
  have unsupported: "setWwwAuthenticate www rnd this =
        (Inl (Error (''No supported authorization types in ''
                     @ JSON_stringify (ownKeys (ownProps infos)))),
         this\<lparr>nonceCount := 1, clientNonce := createRandHexStringSync 16 rnd\<rparr>)"
    if "parseAuthInfos www = Inr infos" "getScheme infos ''digest'' = None"
      "getScheme infos ''basic'' = None" "\<not> hasOwnPropertyHidden infos"
    using that by (simp add: setWwwAuthenticate_def Let_def selectAuthInfo_unsupported)
  have infos: \<open>parseAuthInfos (One ''__proto__ digest=1'')
      = Inr \<lparr>ownProps = [],
             prototype = Some [''authType'' \<mapsto> ''__proto__'', ''digest'' \<mapsto> ''1'']\<rparr>\<close>
    by (rule parseAuthInfos_One_proto [OF parse_proto_digest]) simp
  have proto: "setWwwAuthenticate (One ''__proto__ digest=1'') rnd this =
        (Inr (), this\<lparr>nonceCount := 1, clientNonce := createRandHexStringSync 16 rnd,
                      authInfo := Some (AuthString ''1'')\<rparr>)"
    by (simp add: setWwwAuthenticate_def Let_def infos selectAuthInfo_def getScheme_def)
  have hdr: \<open>fst (getAuthorizationHeader m uri body
            (snd (setWwwAuthenticate (One ''__proto__ digest=1'') rnd this)))
        = Inl (Error ''Internal error: unknown auth type "undefined"'')\<close>
    by (simp add: proto getAuthorizationHeader_def props_def str_def)
  show ?thesis
    apply (rule conjI, rule impI, erule throws)
    apply (rule conjI, rule impI, (erule conjE)+, simp add: unsupported)
    apply (rule conjI, rule proto)
    apply (rule hdr)
    done
qed

theorem setWwwAuthenticate_not_atomic_witness:
  \<open>setWwwAuthenticate (One ''NTLM realm="x"'') [1, 2, 3, 4, 5, 6, 7, 255]
       \<lparr>nonceCount = 3,
        authInfo = Some (AuthObject [''authType'' \<mapsto> ''digest'', ''realm'' \<mapsto> ''r'',
                                     ''nonce'' \<mapsto> ''n'']),
        username = Some ''u'', password = Some ''p'', clientNonce = ''0000000000000000''\<rparr>
     = (Inl (Error ''No supported authorization types in ["ntlm"]''),
        \<lparr>nonceCount = 1,
         authInfo = Some (AuthObject [''authType'' \<mapsto> ''digest'', ''realm'' \<mapsto> ''r'',
                                      ''nonce'' \<mapsto> ''n'']),
         username = Some ''u'', password = Some ''p'', clientNonce = ''01020304050607FF''\<rparr>)
   \<and> setWwwAuthenticate (One ''__proto__ digest=1'') [1, 2, 3, 4, 5, 6, 7, 255]
       \<lparr>nonceCount = 3,
        authInfo = Some (AuthObject [''authType'' \<mapsto> ''digest'', ''realm'' \<mapsto> ''r'',
                                     ''nonce'' \<mapsto> ''n'']),
        username = Some ''u'', password = Some ''p'', clientNonce = ''0000000000000000''\<rparr>
     = (Inr (),
        \<lparr>nonceCount = 1, authInfo = Some (AuthString ''1''),
         username = Some ''u'', password = Some ''p'', clientNonce = ''01020304050607FF''\<rparr>)\<close>
proof -
  let ?old = "AuthObject [''authType'' \<mapsto> ''digest'', ''realm'' \<mapsto> ''r'', ''nonce'' \<mapsto> ''n'']"
  let ?s0 = "\<lparr>nonceCount = 3, authInfo = Some ?old, username = Some ''u'',
                password = Some ''p'', clientNonce = ''0000000000000000''\<rparr>"
  let ?infos = "\<lparr>ownProps = [(''ntlm'', [''authType'' \<mapsto> ''ntlm'', ''realm'' \<mapsto> ''x''])],
                 prototype = None\<rparr>"
  note atomic = setWwwAuthenticate_not_atomic [where this = ?s0
      and rnd = "[1, 2, 3, 4, 5, 6, 7, 255]"]
  have infos: \<open>parseAuthInfos (One ''NTLM realm="x"'') = Inr ?infos\<close>
    using parseAuthInfos_One [OF parse_NTLM] by (simp add: str_def)
  have 1: \<open>setWwwAuthenticate (One ''NTLM realm="x"'') [1, 2, 3, 4, 5, 6, 7, 255] ?s0
      = (Inl (Error ''No supported authorization types in ["ntlm"]''),
         ?s0\<lparr>nonceCount := 1, clientNonce := ''01020304050607FF''\<rparr>)\<close>
    using atomic [where www = \<open>One ''NTLM realm="x"''\<close> and old = ?old and infos = ?infos,
        THEN conjunct2, THEN conjunct1]
    by (simp add: infos getScheme_def hasOwnPropertyHidden_def ownKeys_single
          JSON_stringify_ntlm createRandHexStringSync_sample)
  have 2: "setWwwAuthenticate (One ''__proto__ digest=1'') [1, 2, 3, 4, 5, 6, 7, 255] ?s0
      = (Inr (), ?s0\<lparr>nonceCount := 1, clientNonce := ''01020304050607FF'',
                        authInfo := Some (AuthString ''1'')\<rparr>)"
    using atomic [THEN conjunct2, THEN conjunct2, THEN conjunct1]
    by (simp add: createRandHexStringSync_sample)
  from 1 2 show ?thesis by simp
qed

lemma resolveQop_Some: "resolveQop a = Inr (Some q) \<Longrightarrow> q = ''auth-int'' \<or> q = ''auth''"
  by (auto simp: resolveQop_def Let_def split: if_splits)

lemma createDigestAuthenticationString_qop:
  assumes "resolveQop a = Inr (Some q)" and "a ''nonce'' = Some n"
  shows \<open>\<exists>pre. createDigestAuthenticationString a u p m uri (Some cn) nc body =
           Inr (pre @ '', qop='' @ q @ '', nc='' @ toPaddedHexString nc 8
                @ '', cnonce="'' @ cn @ ''"'')\<close>
proof -
  from assms(1) have q: "q = ''auth-int'' \<or> q = ''auth''"
    by (rule resolveQop_Some)
  obtain r where r: "createDigestResponse a u p m uri (Some cn) nc (Some q) body = Inr r"
    using q assms(2) by (auto simp: createDigestResponse_def Let_def)
  show ?thesis
    unfolding createDigestAuthenticationString_def
    by (simp add: assms r str_def)
qed

lemma createDigestAuthenticationString_first:
  assumes "resolveQop a = Inr (Some q)" and "a ''nonce'' = Some n"
  shows \<open>\<exists>pre. createDigestAuthenticationString a u p m uri (Some cn) 1 body =
           Inr (pre @ '', qop='' @ q @ '', nc=00000001, cnonce="'' @ cn @ ''"'')\<close>
  using createDigestAuthenticationString_qop [OF assms, of u p m uri cn 1 body]
  by (simp add: toPaddedHexString_1_8)

lemma createDigestAuthenticationString_second:
  assumes "resolveQop a = Inr (Some q)" and "a ''nonce'' = Some n"
  shows \<open>\<exists>pre. createDigestAuthenticationString a u p m uri (Some cn) 2 body =
           Inr (pre @ '', qop='' @ q @ '', nc=00000002, cnonce="'' @ cn @ ''"'')\<close>
  using createDigestAuthenticationString_qop [OF assms, of u p m uri cn 2 body]
  by (simp add: toPaddedHexString_2_8)

lemma parseAuthInfos_One_digest:
  \<open>parseAuthInfos (One ''Digest realm="r", nonce="n", qop="auth"'')
     = Inr \<lparr>ownProps = [(''digest'', [''authType'' \<mapsto> ''digest'', ''realm'' \<mapsto> ''r'',
                                      ''nonce'' \<mapsto> ''n'', ''qop'' \<mapsto> ''auth''])],
            prototype = None\<rparr>\<close>
  using parseAuthInfos_One [OF parse_Digest_auth] by (simp add: str_def)

text \<open>
  C4. A successful \<open>setWwwAuthenticate\<close> leaves the nonce count at 1 and the client nonce
  freshly drawn. A header generated by \<open>getAuthorizationHeader\<close> against a digest challenge
  with a qop of auth or auth-int increments the count by exactly 1. No other method
  increments it: \<open>getAuthorizationHeader\<close> adds 1 for a digest challenge, \<open>setWwwAuthenticate\<close>
  resets it to 1, every other method leaves it as it is. So after one successful
  \<open>setWwwAuthenticate\<close> that installs such a challenge (with a nonce), two consecutive
  calls of \<open>getAuthorizationHeader\<close> return headers that end in the qop, \<open>nc=00000001\<close>
  respectively \<open>nc=00000002\<close>, and the client nonce.
\<close>

theorem nonceCount_lifecycle:
  \<open>(fst (setWwwAuthenticate www rnd this) = Inr () \<longrightarrow>
      nonceCount (snd (setWwwAuthenticate www rnd this)) = 1
      \<and> clientNonce (snd (setWwwAuthenticate www rnd this)) = createRandHexStringSync 16 rnd
      \<and> authInfo (snd (setWwwAuthenticate www rnd this)) \<noteq> None)
   \<and> (authInfo this = Some (AuthObject a) \<and> a ''authType'' = Some ''digest''
        \<and> resolveQop a = Inr (Some q)
        \<and> fst (getAuthorizationHeader m uri body this) = Inr h \<longrightarrow>
      nonceCount (snd (getAuthorizationHeader m uri body this)) = nonceCount this + 1)
   \<and> nonceCount (after operation this) =
        (case operation of
           GetAuthorizationHeader m' uri' body' \<Rightarrow>
             (case authInfo this of
                None \<Rightarrow> nonceCount this
              | Some v \<Rightarrow>
                  if props v ''authType'' = Some ''digest'' then nonceCount this + 1
                  else nonceCount this)
         | SetWwwAuthenticate www' rnd' \<Rightarrow> 1
         | _ \<Rightarrow> nonceCount this)
   \<and> (setWwwAuthenticate www rnd this = (Inr (), this1)
        \<and> authInfo this1 = Some (AuthObject a) \<and> a ''authType'' = Some ''digest''
        \<and> resolveQop a = Inr (Some q) \<and> a ''nonce'' = Some n \<longrightarrow>
      (\<exists>pre1 pre2 this2 this3.
         getAuthorizationHeader m1 uri1 body1 this1 =
           (Inr (pre1 @ '', qop='' @ q @ '', nc=00000001, cnonce="''
                 @ createRandHexStringSync 16 rnd @ ''"''), this2)
         \<and> getAuthorizationHeader m2 uri2 body2 this2 =
           (Inr (pre2 @ '', qop='' @ q @ '', nc=00000002, cnonce="''
                 @ createRandHexStringSync 16 rnd @ ''"''), this3)))\<close>
proof -
  have reset: "nonceCount (snd (setWwwAuthenticate w r s)) = 1
      \<and> clientNonce (snd (setWwwAuthenticate w r s)) = createRandHexStringSync 16 r" for w r s
    by (simp add: setWwwAuthenticate_def Let_def split: sum.splits)
  have installed: "authInfo (snd (setWwwAuthenticate w r s)) \<noteq> None"
    if "fst (setWwwAuthenticate w r s) = Inr ()" for w r s
    using that by (simp add: setWwwAuthenticate_def Let_def split: sum.splits)
  have incr: "nonceCount (snd (getAuthorizationHeader m' uri' body' s)) = nonceCount s + 1"
    if "authInfo s = Some (AuthObject a')" "a' ''authType'' = Some ''digest''"
    for m' uri' body' s a'
    using that by (simp add: getAuthorizationHeader_def props_def)
  have ops: "nonceCount (after operation this) =
        (case operation of
           GetAuthorizationHeader m' uri' body' \<Rightarrow>
             (case authInfo this of
                None \<Rightarrow> nonceCount this
              | Some v \<Rightarrow>
                  if props v ''authType'' = Some ''digest'' then nonceCount this + 1
                  else nonceCount this)
         | SetWwwAuthenticate www' rnd' \<Rightarrow> 1
         | _ \<Rightarrow> nonceCount this)"
    by (cases operation)
       (simp_all add: setCredentials_def getAuthorizationHeader_def reset split: option.splits)
  have two: \<open>\<exists>pre1 pre2 this2 this3.
         getAuthorizationHeader m1 uri1 body1 this1 =
           (Inr (pre1 @ '', qop='' @ q @ '', nc=00000001, cnonce="''
                 @ createRandHexStringSync 16 rnd @ ''"''), this2)
         \<and> getAuthorizationHeader m2 uri2 body2 this2 =
           (Inr (pre2 @ '', qop='' @ q @ '', nc=00000002, cnonce="''
                 @ createRandHexStringSync 16 rnd @ ''"''), this3)\<close>
    if set: "setWwwAuthenticate www rnd this = (Inr (), this1)"
      and a: "authInfo this1 = Some (AuthObject a)" "a ''authType'' = Some ''digest''"
      and q: "resolveQop a = Inr (Some q)" and n: "a ''nonce'' = Some n"
  proof -
    from reset [of www rnd this] set
    have this1: "nonceCount this1 = 1" "clientNonce this1 = createRandHexStringSync 16 rnd"
      by simp_all
    obtain pre1 where h1:
      \<open>createDigestAuthenticationString a (username this1) (password this1) m1 uri1
          (Some (createRandHexStringSync 16 rnd)) 1 body1 =
        Inr (pre1 @ '', qop='' @ q @ '', nc=00000001, cnonce="''
             @ createRandHexStringSync 16 rnd @ ''"'')\<close>
      using createDigestAuthenticationString_first [OF q n] by blast
    obtain pre2 where h2:
      \<open>createDigestAuthenticationString a (username this1) (password this1) m2 uri2
          (Some (createRandHexStringSync 16 rnd)) 2 body2 =
        Inr (pre2 @ '', qop='' @ q @ '', nc=00000002, cnonce="''
             @ createRandHexStringSync 16 rnd @ ''"'')\<close>
      using createDigestAuthenticationString_second [OF q n] by blast
    let ?this2 = "this1\<lparr>nonceCount := 2\<rparr>"
    have g1: "getAuthorizationHeader m1 uri1 body1 this1 =
        (createDigestAuthenticationString a (username this1) (password this1) m1 uri1
           (Some (createRandHexStringSync 16 rnd)) 1 body1, ?this2)"
      by (simp add: getAuthorizationHeader_def props_def a this1)
    have g2: "getAuthorizationHeader m2 uri2 body2 ?this2 =
        (createDigestAuthenticationString a (username this1) (password this1) m2 uri2
           (Some (createRandHexStringSync 16 rnd)) 2 body2, this1\<lparr>nonceCount := 3\<rparr>)"
      by (simp add: getAuthorizationHeader_def props_def a this1)
    from g1 g2 show ?thesis
      unfolding h1 h2 by blast
  qed
  show ?thesis
    using reset installed incr ops two by blast
qed

theorem nonceCount_lifecycle_witness:
  \<open>setWwwAuthenticate (One ''Digest realm="r", nonce="n", qop="auth"'')
       [1, 2, 3, 4, 5, 6, 7, 255]
       \<lparr>nonceCount = 7, authInfo = None, username = Some ''u'', password = Some ''p'',
        clientNonce = ''0000000000000000''\<rparr>
     = (Inr (),
        \<lparr>nonceCount = 1,
         authInfo = Some (AuthObject [''authType'' \<mapsto> ''digest'', ''realm'' \<mapsto> ''r'',
                                      ''nonce'' \<mapsto> ''n'', ''qop'' \<mapsto> ''auth'']),
         username = Some ''u'', password = Some ''p'', clientNonce = ''01020304050607FF''\<rparr>)
   \<and> getAuthorizationHeader ''GET'' ''/'' None
       \<lparr>nonceCount = 1,
        authInfo = Some (AuthObject [''authType'' \<mapsto> ''digest'', ''realm'' \<mapsto> ''r'',
                                     ''nonce'' \<mapsto> ''n'', ''qop'' \<mapsto> ''auth'']),
        username = Some ''u'', password = Some ''p'', clientNonce = ''01020304050607FF''\<rparr>
     = (Inr (''Digest username="u", realm="r", nonce="n", uri="/", response="''
             @ md5 (md5 ''u:r:p'' @ '':n:00000001:01020304050607FF:auth:'' @ md5 ''GET:/'')
             @ ''", qop=auth, nc=00000001, cnonce="01020304050607FF"''),
        \<lparr>nonceCount = 2,
         authInfo = Some (AuthObject [''authType'' \<mapsto> ''digest'', ''realm'' \<mapsto> ''r'',
                                      ''nonce'' \<mapsto> ''n'', ''qop'' \<mapsto> ''auth'']),
         username = Some ''u'', password = Some ''p'', clientNonce = ''01020304050607FF''\<rparr>)
   \<and> getAuthorizationHeader ''GET'' ''/'' None
       \<lparr>nonceCount = 2,
        authInfo = Some (AuthObject [''authType'' \<mapsto> ''digest'', ''realm'' \<mapsto> ''r'',
                                     ''nonce'' \<mapsto> ''n'', ''qop'' \<mapsto> ''auth'']),
        username = Some ''u'', password = Some ''p'', clientNonce = ''01020304050607FF''\<rparr>
     = (Inr (''Digest username="u", realm="r", nonce="n", uri="/", response="''
             @ md5 (md5 ''u:r:p'' @ '':n:00000002:01020304050607FF:auth:'' @ md5 ''GET:/'')
             @ ''", qop=auth, nc=00000002, cnonce="01020304050607FF"''),
        \<lparr>nonceCount = 3,
         authInfo = Some (AuthObject [''authType'' \<mapsto> ''digest'', ''realm'' \<mapsto> ''r'',
                                      ''nonce'' \<mapsto> ''n'', ''qop'' \<mapsto> ''auth'']),
         username = Some ''u'', password = Some ''p'', clientNonce = ''01020304050607FF''\<rparr>)
   \<and> nonceCount (after (SetCredentials ''v'' ''w'')
       \<lparr>nonceCount = 2,
        authInfo = Some (AuthObject [''authType'' \<mapsto> ''digest'', ''realm'' \<mapsto> ''r'',
                                     ''nonce'' \<mapsto> ''n'', ''qop'' \<mapsto> ''auth'']),
        username = Some ''u'', password = Some ''p'', clientNonce = ''01020304050607FF''\<rparr>) = 2\<close>
proof -
  let ?a = "[''authType'' \<mapsto> ''digest'', ''realm'' \<mapsto> ''r'', ''nonce'' \<mapsto> ''n'',
             ''qop'' \<mapsto> ''auth'']"
  let ?www = \<open>One ''Digest realm="r", nonce="n", qop="auth"''\<close>
  let ?rnd = "[1, 2, 3, 4, 5, 6, 7, 255] :: 8 word list"
  let ?this0 = "\<lparr>nonceCount = 7, authInfo = None, username = Some ''u'', password = Some ''p'',
                 clientNonce = ''0000000000000000''\<rparr>"
  let ?this1 = "\<lparr>nonceCount = 1, authInfo = Some (AuthObject ?a), username = Some ''u'',
                 password = Some ''p'', clientNonce = ''01020304050607FF''\<rparr>"
  let ?this2 = "\<lparr>nonceCount = 2, authInfo = Some (AuthObject ?a), username = Some ''u'',
                 password = Some ''p'', clientNonce = ''01020304050607FF''\<rparr>"
  have set: "setWwwAuthenticate ?www ?rnd ?this0 = (Inr (), ?this1)"
    by (simp add: setWwwAuthenticate_def Let_def parseAuthInfos_One_digest selectAuthInfo_def
          getScheme_def createRandHexStringSync_sample)
  have q: "resolveQop ?a = Inr (Some ''auth'')"
    by (simp add: resolveQop_def)
  have hdr: \<open>createDigestAuthenticationString ?a (Some ''u'') (Some ''p'') ''GET'' ''/''
        (Some ''01020304050607FF'') k None
      = Inr (''Digest username="u", realm="r", nonce="n", uri="/", response="''
             @ md5 (md5 ''u:r:p'' @ '':n:'' @ toPaddedHexString k 8 @ '':01020304050607FF:auth:''
                    @ md5 ''GET:/'')
             @ ''", qop=auth, nc='' @ toPaddedHexString k 8 @ '', cnonce="01020304050607FF"'')\<close>
    for k
    by (simp add: createDigestAuthenticationString_def q createDigestResponse_def Let_def
          digestHA1_def digestHA2_def str_def)
  let ?h1 = \<open>''Digest username="u", realm="r", nonce="n", uri="/", response="''
             @ md5 (md5 ''u:r:p'' @ '':n:'' @ toPaddedHexString 1 8 @ '':01020304050607FF:auth:''
                    @ md5 ''GET:/'')
             @ ''", qop=auth, nc='' @ toPaddedHexString 1 8 @ '', cnonce="01020304050607FF"''\<close>
  note life = nonceCount_lifecycle [where this = ?this1 and a = ?a and q = "''auth''"
      and m = "''GET''" and uri = "''/''" and body = None and h = ?h1,
      THEN conjunct2, THEN conjunct1, rule_format]
  note life2 = nonceCount_lifecycle [where this = ?this2
      and operation = "SetCredentials ''v'' ''w''", THEN conjunct2, THEN conjunct2,
      THEN conjunct1]
  have g1: "fst (getAuthorizationHeader ''GET'' ''/'' None ?this1)
      = createDigestAuthenticationString ?a (Some ''u'') (Some ''p'') ''GET'' ''/''
          (Some ''01020304050607FF'') 1 None"
    by (simp add: getAuthorizationHeader_def props_def)
  have "nonceCount (snd (getAuthorizationHeader ''GET'' ''/'' None ?this1))
      = nonceCount ?this1 + 1"
  proof (rule life, intro conjI)
    show "fst (getAuthorizationHeader ''GET'' ''/'' None ?this1) = Inr ?h1"
      unfolding g1 by (rule hdr)
  qed (simp_all add: q)
  then have n1: "nonceCount (snd (getAuthorizationHeader ''GET'' ''/'' None ?this1)) = 2"
    by simp
  have s1: "snd (getAuthorizationHeader ''GET'' ''/'' None ?this1) = ?this2"
    using n1 by (simp add: getAuthorizationHeader_def)
  have g2: "getAuthorizationHeader ''GET'' ''/'' None ?this2
      = (createDigestAuthenticationString ?a (Some ''u'') (Some ''p'') ''GET'' ''/''
          (Some ''01020304050607FF'') 2 None, ?this2\<lparr>nonceCount := 3\<rparr>)"
    by (simp add: getAuthorizationHeader_def props_def)
  have keep: "nonceCount (after (SetCredentials ''v'' ''w'') ?this2) = 2"
    using life2 by simp
  show ?thesis
    using set g1 s1 g2 keep hdr [of 1] hdr [of 2]
    by (simp add: prod_eq_iff toPaddedHexString_1_8 toPaddedHexString_2_8)
qed

section \<open>What is checked of a digest challenge\<close>

lemma parse_Digest_empty:
  \<open>parseWwwAuthenticateHeader ''Digest realm="", nonce=""''
     = Inr [''authType'' \<mapsto> ''digest'', ''realm'' \<mapsto> [], ''nonce'' \<mapsto> []]\<close>
  by (simp add: parse_eval)

lemma setWwwAuthenticate_One_digest:
  assumes "parseWwwAuthenticateHeader hv = Inr a" and "a ''authType'' = Some ''digest''"
  shows "setWwwAuthenticate (One hv) rnd this =
           (Inr (), this\<lparr>nonceCount := 1, clientNonce := createRandHexStringSync 16 rnd,
                         authInfo := Some (AuthObject a)\<rparr>)"
  using assms
  by (simp add: setWwwAuthenticate_def parseAuthInfos_def assignScheme_def emptyObject_def
        selectAuthInfo_def getScheme_def str_def Let_def)

lemma createDigestAuthenticationString_succeeds:
  "(\<exists>h. createDigestAuthenticationString a u p m uri cn nc body = Inr h) \<longleftrightarrow>
     (resolveQop a = Inr None
      \<or> (\<exists>q. resolveQop a = Inr (Some q) \<and> a ''nonce'' \<noteq> None \<and> cn \<noteq> None))"
proof (cases "resolveQop a")
  case (Inl e)
  then show ?thesis by (simp add: createDigestAuthenticationString_def)
next
  case (Inr qopType)
  show ?thesis
  proof (cases qopType)
    case None
    with Inr show ?thesis
      by (simp add: createDigestAuthenticationString_def createDigestResponse_def Let_def)
  next
    case (Some q)
    with Inr have "q = ''auth-int'' \<or> q = ''auth''"
      by (simp add: resolveQop_Some)
    with Inr Some show ?thesis
      by (auto simp: createDigestAuthenticationString_def createDigestResponse_def Let_def)
  qed
qed

text \<open>
  C2, as the code has it. The parser and \<open>setWwwAuthenticate\<close> check neither the realm nor
  the nonce: every header value that parses to a digest challenge is installed. Whether
  the digest header can be built never depends on the realm. The one check on the
  challenge is made when a qop of auth or auth-int is resolved: without a nonce attribute
  the computation fails with "nonce must be set"; with a nonce attribute, empty or not,
  and a client nonce it succeeds.
\<close>

theorem digest_challenge_checks:
  "(parseWwwAuthenticateHeader hv = Inr a \<and> a ''authType'' = Some ''digest'' \<longrightarrow>
      setWwwAuthenticate (One hv) rnd this =
        (Inr (), this\<lparr>nonceCount := 1, clientNonce := createRandHexStringSync 16 rnd,
                      authInfo := Some (AuthObject a)\<rparr>))
   \<and> ((\<exists>h. createDigestAuthenticationString (b(''realm'' := r)) u p m uri cn nc body = Inr h)
        \<longleftrightarrow> (\<exists>h. createDigestAuthenticationString b u p m uri cn nc body = Inr h))
   \<and> (resolveQop b = Inr (Some q) \<and> b ''nonce'' = None \<longrightarrow>
        createDigestAuthenticationString b u p m uri cn nc body =
          Inl (Error ''nonce must be set''))
   \<and> (resolveQop b = Inr (Some q) \<and> b ''nonce'' = Some n \<longrightarrow>
        (\<exists>h. createDigestAuthenticationString b u p m uri (Some c) nc body = Inr h))"
proof -
  have missing: "createDigestAuthenticationString b u p m uri cn nc body =
      Inl (Error ''nonce must be set'')"
    if "resolveQop b = Inr (Some q)" "b ''nonce'' = None"
    using that resolveQop_Some [OF that(1)]
    by (auto simp: createDigestAuthenticationString_def createDigestResponse_def Let_def)
  have "resolveQop (b(''realm'' := r)) = resolveQop b"
    by (simp add: resolveQop_def)
  then have realm:
    "(\<exists>h. createDigestAuthenticationString (b(''realm'' := r)) u p m uri cn nc body = Inr h)
       \<longleftrightarrow> (\<exists>h. createDigestAuthenticationString b u p m uri cn nc body = Inr h)"
    by (simp add: createDigestAuthenticationString_succeeds)
  have present: "\<exists>h. createDigestAuthenticationString b u p m uri (Some c) nc body = Inr h"
    if "resolveQop b = Inr (Some q)" "b ''nonce'' = Some n"
    using that by (simp add: createDigestAuthenticationString_succeeds)
  show ?thesis
    using setWwwAuthenticate_One_digest [of hv a rnd this] missing realm present
    by blast
qed

theorem digest_challenge_checks_witness:
  \<open>setWwwAuthenticate (One ''Digest realm="", nonce=""'') [1, 2, 3, 4, 5, 6, 7, 255]
       \<lparr>nonceCount = 7, authInfo = None, username = Some ''u'', password = Some ''p'',
        clientNonce = ''0000000000000000''\<rparr>
     = (Inr (),
        \<lparr>nonceCount = 1,
         authInfo = Some (AuthObject [''authType'' \<mapsto> ''digest'', ''realm'' \<mapsto> [],
                                      ''nonce'' \<mapsto> []]),
         username = Some ''u'', password = Some ''p'', clientNonce = ''01020304050607FF''\<rparr>)
   \<and> createDigestAuthenticationString [''authType'' \<mapsto> ''digest'', ''realm'' \<mapsto> ''r'', ''qop'' \<mapsto> ''auth'']
       (Some ''u'') (Some ''p'') ''GET'' ''/'' (Some ''01020304050607FF'') 1 None
     = Inl (Error ''nonce must be set'')
   \<and> (\<exists>h. createDigestAuthenticationString
              [''authType'' \<mapsto> ''digest'', ''nonce'' \<mapsto> [], ''qop'' \<mapsto> ''auth'']
              (Some ''u'') (Some ''p'') ''GET'' ''/'' (Some ''01020304050607FF'') 1 None
            = Inr h)\<close>
proof -
  let ?a = "[''authType'' \<mapsto> ''digest'', ''realm'' \<mapsto> [], ''nonce'' \<mapsto> []]"
  let ?b = "[''authType'' \<mapsto> ''digest'', ''realm'' \<mapsto> ''r'', ''qop'' \<mapsto> ''auth'']"
  note checks = digest_challenge_checks [where hv = \<open>''Digest realm="", nonce=""''\<close>
      and a = ?a and rnd = "[1, 2, 3, 4, 5, 6, 7, 255]" and b = ?b and q = "''auth''"
      and this = "\<lparr>nonceCount = 7, authInfo = None, username = Some ''u'',
                    password = Some ''p'', clientNonce = ''0000000000000000''\<rparr>"
      and u = "Some ''u''" and p = "Some ''p''" and m = "''GET''" and uri = "''/''"
      and cn = "Some ''01020304050607FF''" and nc = 1 and body = None]
  have q: "resolveQop ?b = Inr (Some ''auth'')"
    by (simp add: resolveQop_def)
  from checks [THEN conjunct1] have 1:
    \<open>setWwwAuthenticate (One ''Digest realm="", nonce=""'') [1, 2, 3, 4, 5, 6, 7, 255]
       \<lparr>nonceCount = 7, authInfo = None, username = Some ''u'', password = Some ''p'',
        clientNonce = ''0000000000000000''\<rparr>
     = (Inr (),
        \<lparr>nonceCount = 1, authInfo = Some (AuthObject ?a),
         username = Some ''u'', password = Some ''p'', clientNonce = ''01020304050607FF''\<rparr>)\<close>
    by (simp add: parse_Digest_empty createRandHexStringSync_sample)
  from checks [THEN conjunct2, THEN conjunct2, THEN conjunct1] q have 2:
    "createDigestAuthenticationString ?b (Some ''u'') (Some ''p'') ''GET'' ''/''
       (Some ''01020304050607FF'') 1 None
     = Inl (Error ''nonce must be set'')"
    by simp
  let ?c = "[''authType'' \<mapsto> ''digest'', ''nonce'' \<mapsto> [], ''qop'' \<mapsto> ''auth'']"
  have q': "resolveQop ?c = Inr (Some ''auth'')"
    by (simp add: resolveQop_def)
  from digest_challenge_checks [where b = ?c and q = "''auth''" and n = "[]"
      and u = "Some ''u''" and p = "Some ''p''" and m = "''GET''" and uri = "''/''"
      and c = "''01020304050607FF''" and nc = 1 and body = None,
      THEN conjunct2, THEN conjunct2, THEN conjunct2] q'
  have 3: "\<exists>h. createDigestAuthenticationString ?c (Some ''u'') (Some ''p'') ''GET'' ''/''
      (Some ''01020304050607FF'') 1 None = Inr h"
    by simp
  from 1 2 3 show ?thesis by blast
qed

text \<open>
  C2 as the specification states it (a digest challenge without a non-empty realm and
  nonce is rejected) does not hold: the header value \<open>Digest x=1\<close> has neither realm
  nor nonce, and \<open>Digest realm="", nonce=""\<close> has both empty; each is parsed and
  installed, and \<open>getAuthorizationHeader\<close> then returns a header built from it.
\<close>

theorem digest_challenge_unvalidated:
  \<open>setWwwAuthenticate (One ''Digest x=1'') [1, 2, 3, 4, 5, 6, 7, 255]
       \<lparr>nonceCount = 7, authInfo = None, username = Some ''u'', password = Some ''p'',
        clientNonce = ''0000000000000000''\<rparr>
     = (Inr (),
        \<lparr>nonceCount = 1,
         authInfo = Some (AuthObject [''authType'' \<mapsto> ''digest'', ''x'' \<mapsto> ''1'']),
         username = Some ''u'', password = Some ''p'', clientNonce = ''01020304050607FF''\<rparr>)
   \<and> [''authType'' \<mapsto> ''digest'', ''x'' \<mapsto> ''1''] ''realm'' = None
   \<and> [''authType'' \<mapsto> ''digest'', ''x'' \<mapsto> ''1''] ''nonce'' = None
   \<and> fst (getAuthorizationHeader ''GET'' ''/'' None
        \<lparr>nonceCount = 1,
         authInfo = Some (AuthObject [''authType'' \<mapsto> ''digest'', ''x'' \<mapsto> ''1'']),
         username = Some ''u'', password = Some ''p'', clientNonce = ''01020304050607FF''\<rparr>)
     = Inr (''Digest username="u", realm="undefined", nonce="undefined", uri="/", response="''
            @ md5 (md5 ''u:undefined:p'' @ '':undefined:'' @ md5 ''GET:/'') @ ''"'')
   \<and> fst (setWwwAuthenticate (One ''Digest realm="", nonce=""'') [1, 2, 3, 4, 5, 6, 7, 255]
        \<lparr>nonceCount = 7, authInfo = None, username = Some ''u'', password = Some ''p'',
         clientNonce = ''0000000000000000''\<rparr>) = Inr ()
   \<and> fst (getAuthorizationHeader ''GET'' ''/'' None
        \<lparr>nonceCount = 1,
         authInfo = Some (AuthObject [''authType'' \<mapsto> ''digest'', ''realm'' \<mapsto> [],
                                      ''nonce'' \<mapsto> []]),
         username = Some ''u'', password = Some ''p'', clientNonce = ''01020304050607FF''\<rparr>)
     = Inr (''Digest username="u", realm="", nonce="", uri="/", response="''
            @ md5 (md5 ''u::p'' @ ''::'' @ md5 ''GET:/'') @ ''"'')\<close>
proof -
  have set: "setWwwAuthenticate (One ''Digest x=1'') [1, 2, 3, 4, 5, 6, 7, 255]
       \<lparr>nonceCount = 7, authInfo = None, username = Some ''u'', password = Some ''p'',
        clientNonce = ''0000000000000000''\<rparr>
     = (Inr (),
        \<lparr>nonceCount = 1,
         authInfo = Some (AuthObject [''authType'' \<mapsto> ''digest'', ''x'' \<mapsto> ''1'']),
         username = Some ''u'', password = Some ''p'', clientNonce = ''01020304050607FF''\<rparr>)"
    by (simp add: setWwwAuthenticate_One_digest [OF parse_Digest_x]
          createRandHexStringSync_sample)
  have set': \<open>fst (setWwwAuthenticate (One ''Digest realm="", nonce=""'') [1, 2, 3, 4, 5, 6, 7, 255]
        \<lparr>nonceCount = 7, authInfo = None, username = Some ''u'', password = Some ''p'',
         clientNonce = ''0000000000000000''\<rparr>) = Inr ()\<close>
    by (simp add: setWwwAuthenticate_One_digest [OF parse_Digest_empty])
  have get: \<open>fst (getAuthorizationHeader ''GET'' ''/'' None
        \<lparr>nonceCount = 1,
         authInfo = Some (AuthObject [''authType'' \<mapsto> ''digest'', ''x'' \<mapsto> ''1'']),
         username = Some ''u'', password = Some ''p'', clientNonce = ''01020304050607FF''\<rparr>)
     = Inr (''Digest username="u", realm="undefined", nonce="undefined", uri="/", response="''
            @ md5 (md5 ''u:undefined:p'' @ '':undefined:'' @ md5 ''GET:/'') @ ''"'')\<close>
    by (simp add: getAuthorizationHeader_def props_def createDigestAuthenticationString_def
          resolveQop_def createDigestResponse_def digestHA1_def digestHA2_def str_def Let_def)
  have get': \<open>fst (getAuthorizationHeader ''GET'' ''/'' None
        \<lparr>nonceCount = 1,
         authInfo = Some (AuthObject [''authType'' \<mapsto> ''digest'', ''realm'' \<mapsto> [],
                                      ''nonce'' \<mapsto> []]),
         username = Some ''u'', password = Some ''p'', clientNonce = ''01020304050607FF''\<rparr>)
     = Inr (''Digest username="u", realm="", nonce="", uri="/", response="''
            @ md5 (md5 ''u::p'' @ ''::'' @ md5 ''GET:/'') @ ''"'')\<close>
    by (simp add: getAuthorizationHeader_def props_def createDigestAuthenticationString_def
          resolveQop_def createDigestResponse_def digestHA1_def digestHA2_def str_def Let_def)
  from set set' get get' show ?thesis by simp
qed

section \<open>The tests of the repository\<close>

text \<open>
  The expectations of the repository's tests for \<^verbatim>\<open>HttpAuth.ts\<close> (the examples of
  RFC 2617 and RFC 2069), evaluated on the embedding.
\<close>

lemma md5_test_a2: "md5 ''GET:/dir/index.html'' = ''39aff3a2bab6126f332b942af96d3366''"
  by code_simp

lemma md5_test_response_auth:
  "md5 ''939e7578ed9e3c518a452acee763bce9:dcd98b7102dd2f0e8b11d0f600bfb0c093:00000001:0a4f113b:auth:39aff3a2bab6126f332b942af96d3366''
     = ''6629fae49393a05397450978507c4ef1''"
  by code_simp

lemma md5_test_a1_legacy:
  "md5 ''Mufasa:testrealm@host.com:CircleOfLife'' = ''4945ecf42b1bb868634058a845bedde8''"
  by code_simp

lemma md5_test_response_legacy:
  "md5 ''4945ecf42b1bb868634058a845bedde8:dcd98b7102dd2f0e8b11d0f600bfb0c093:39aff3a2bab6126f332b942af96d3366''
     = ''1949323746fe6a43ef61f9606e7febea''"
  by code_simp

lemma test_toPaddedHexString:
  "toPaddedHexString 0 8 = ''00000000'' \<and> toPaddedHexString 1 8 = ''00000001''
   \<and> toPaddedHexString 0 0 = ''0'' \<and> toPaddedHexString 1 0 = ''1''
   \<and> toPaddedHexString 10 0 = ''a''"
  by code_simp

lemma test_digest_qop_auth:
  \<open>createDigestAuthenticationString
       [''authType'' \<mapsto> ''digest'', ''realm'' \<mapsto> ''testrealm@host.com'',
        ''nonce'' \<mapsto> ''dcd98b7102dd2f0e8b11d0f600bfb0c093'',
        ''opaque'' \<mapsto> ''5ccc069c403ebaf9f0171e9517f40e41'', ''qop'' \<mapsto> ''auth'']
       (Some ''Mufasa'') (Some ''Circle Of Life'') ''GET'' ''/dir/index.html''
       (Some ''0a4f113b'') 1 None
     = Inr ''Digest username="Mufasa", realm="testrealm@host.com", nonce="dcd98b7102dd2f0e8b11d0f600bfb0c093", uri="/dir/index.html", response="6629fae49393a05397450978507c4ef1", opaque="5ccc069c403ebaf9f0171e9517f40e41", qop=auth, nc=00000001, cnonce="0a4f113b"''\<close>
  by (simp add: createDigestAuthenticationString_def resolveQop_def createDigestResponse_def
        digestHA1_def digestHA2_def str_def Let_def toPaddedHexString_1_8
        md5_Mufasa_a1 md5_test_a2 md5_test_response_auth)

lemma test_parse_digest:
  \<open>parseWwwAuthenticateHeader ''Digest realm="testrealm@host.com", nonce="dcd98b7102dd2f0e8b11d0f600bfb0c093", opaque="5ccc069c403ebaf9f0171e9517f40e41"''
     = Inr [''authType'' \<mapsto> ''digest'', ''realm'' \<mapsto> ''testrealm@host.com'',
            ''nonce'' \<mapsto> ''dcd98b7102dd2f0e8b11d0f600bfb0c093'',
            ''opaque'' \<mapsto> ''5ccc069c403ebaf9f0171e9517f40e41'']\<close>
  by (simp add: parse_eval)

lemma test_digest_legacy:
  \<open>getAuthorizeHeaderForWwwAuthenticate
       (One ''Digest realm="testrealm@host.com", nonce="dcd98b7102dd2f0e8b11d0f600bfb0c093", opaque="5ccc069c403ebaf9f0171e9517f40e41"'')
       (Some ''Mufasa'') (Some ''CircleOfLife'') (Some ''0a4f113b'') 1 ''GET''
       ''/dir/index.html'' None
     = Inr ''Digest username="Mufasa", realm="testrealm@host.com", nonce="dcd98b7102dd2f0e8b11d0f600bfb0c093", uri="/dir/index.html", response="1949323746fe6a43ef61f9606e7febea", opaque="5ccc069c403ebaf9f0171e9517f40e41"''\<close>
  by (simp add: getAuthorizeHeaderForWwwAuthenticate_def parseAuthInfos_def test_parse_digest
        assignScheme_def emptyObject_def getScheme_def props_def
        createDigestAuthenticationString_def resolveQop_def createDigestResponse_def
        digestHA1_def digestHA2_def str_def Let_def
        md5_test_a1_legacy md5_test_a2 md5_test_response_legacy)

lemma test_authenticator_legacy:
  \<open>fst (getAuthorizationHeader ''GET'' ''/dir/index.html'' None
          (setCredentials ''Mufasa'' ''CircleOfLife''
             (snd (setWwwAuthenticate
                     (One ''Digest realm="testrealm@host.com", nonce="dcd98b7102dd2f0e8b11d0f600bfb0c093", opaque="5ccc069c403ebaf9f0171e9517f40e41"'')
                     rnd' (newHttpAuthenticator rnd)))))
     = Inr ''Digest username="Mufasa", realm="testrealm@host.com", nonce="dcd98b7102dd2f0e8b11d0f600bfb0c093", uri="/dir/index.html", response="1949323746fe6a43ef61f9606e7febea", opaque="5ccc069c403ebaf9f0171e9517f40e41"''\<close>
  by (simp add: setWwwAuthenticate_One_digest [OF test_parse_digest] setCredentials_def
        newHttpAuthenticator_def getAuthorizationHeader_def props_def
        createDigestAuthenticationString_def resolveQop_def createDigestResponse_def
        digestHA1_def digestHA2_def str_def Let_def
        md5_test_a1_legacy md5_test_a2 md5_test_response_legacy)

lemma md5_test_a1_camera:
  "md5 ''test:IP Camera(C4472):test12345'' = ''55bee4b59c5f20743e7f03b85a6e6526''"
  by code_simp

lemma md5_test_a2_camera:
  "md5 ''DESCRIBE:rtsp://192.168.1.52:554/'' = ''f3abad078096adb9b9e0f47234841f40''"
  by code_simp

lemma md5_test_response_camera:
  "md5 ''55bee4b59c5f20743e7f03b85a6e6526:a49568c59afb35d9a52fef90b8f027f4:f3abad078096adb9b9e0f47234841f40''
     = ''387d75f8ffdb80944ae586c8d4052eb8''"
  by code_simp

lemma test_parse_camera:
  \<open>parseWwwAuthenticateHeader ''Digest realm="IP Camera(C4472)", nonce="a49568c59afb35d9a52fef90b8f027f4", stale="FALSE"''
     = Inr [''authType'' \<mapsto> ''digest'', ''realm'' \<mapsto> ''IP Camera(C4472)'',
            ''nonce'' \<mapsto> ''a49568c59afb35d9a52fef90b8f027f4'', ''stale'' \<mapsto> ''FALSE'']\<close>
  by (simp add: parse_eval)

lemma toLowerCase_FALSE: "toLowerCase ''FALSE'' = ''false''"
  by code_simp

lemma test_authenticator_camera:
  \<open>fst (getAuthorizationHeader ''DESCRIBE'' ''rtsp://192.168.1.52:554/'' None
          (setCredentials ''test'' ''test12345''
             (snd (setWwwAuthenticate
                     (One ''Digest realm="IP Camera(C4472)", nonce="a49568c59afb35d9a52fef90b8f027f4", stale="FALSE"'')
                     rnd' (newHttpAuthenticator rnd)))))
     = Inr ''Digest username="test", realm="IP Camera(C4472)", nonce="a49568c59afb35d9a52fef90b8f027f4", uri="rtsp://192.168.1.52:554/", response="387d75f8ffdb80944ae586c8d4052eb8"''
   \<and> previousFailedRequestWasStale
         (snd (setWwwAuthenticate
                 (One ''Digest realm="IP Camera(C4472)", nonce="a49568c59afb35d9a52fef90b8f027f4", stale="FALSE"'')
                 rnd' (newHttpAuthenticator rnd)))
     = Inr False\<close>
  by (simp add: setWwwAuthenticate_One_digest [OF test_parse_camera] setCredentials_def
        newHttpAuthenticator_def getAuthorizationHeader_def props_def
        previousFailedRequestWasStale_def
        createDigestAuthenticationString_def resolveQop_def createDigestResponse_def
        digestHA1_def digestHA2_def str_def Let_def toLowerCase_FALSE
        md5_test_a1_camera md5_test_a2_camera md5_test_response_camera)

end
